theory Spec2Isabelle
  imports Complex_Main "HOL-Library.Char_ord" "HOL-Library.List_Lexorder"
begin

section \<open>Traffic accident injury prediction: the notebook as a state-passing program\<close>

text \<open>
  The repository is one notebook, \<^verbatim>\<open>TrafficAccidentInjuryPrediction.ipynb\<close>, whose code
  cells run once, top to bottom. Each code cell is embedded as a function on the notebook's
  variables. The calls into pandas and scikit-learn that the cells make are embedded by what
  those calls compute on their documented default settings, and \<open>NaN\<close>/\<open>NaT\<close> (a
  missing entry) is \<open>None\<close>. The parts of the libraries that the notebook only passes data
  through (the conversion of strings to dates, the shuffling of the train/test split, the
  three learning algorithms) are parameters, collected in the record \<open>library\<close>.

  Numbers are real numbers: the rounding of \<open>float64\<close> arithmetic is not part of the
  embedding. What is proved below is therefore about which data goes where and which
  operation is applied to it, not about the last digits of a mean or a deviation.
\<close>

subsection \<open>Errors and results\<close>

datatype error = KeyError | ValueError | AttributeError | NotFittedError | NameError

definition bind_res :: "error + 'a \<Rightarrow> ('a \<Rightarrow> error + 'b) \<Rightarrow> error + 'b" where
  "bind_res m f = (case m of Inl e \<Rightarrow> Inl e | Inr v \<Rightarrow> f v)"

fun traverse :: "('a \<Rightarrow> error + 'b) \<Rightarrow> 'a list \<Rightarrow> error + 'b list" where
  "traverse f [] = Inr []"
| "traverse f (x # xs) =
     bind_res (f x) (\<lambda>y. bind_res (traverse f xs) (\<lambda>ys. Inr (y # ys)))"

subsection \<open>Data frames\<close>

datatype timestamp = Timestamp (year: int) (month: int) (dayofweek: int)

text \<open>A column is numeric (\<open>int64\<close>/\<open>float64\<close>), of dtype \<open>object\<close> (Python objects,
  written as strings: the strings read from the CSV), or \<open>datetime64\<close>. A data frame is
  its named columns, in order.\<close>

datatype column =
    Num "real option list"
  | Obj "string option list"
  | Datetime "timestamp option list"

type_synonym frame = "(string \<times> column) list"

text \<open>A matrix is a frame all of whose columns are \<open>float64\<close> without missing entries:
  the output of the preprocessing, and everything derived from it. Its number of rows is the
  length of its columns.\<close>

type_synonym matrix = "(string \<times> real list) list"

definition mrows :: "matrix \<Rightarrow> nat" where
  "mrows X = (case X of [] \<Rightarrow> 0 | (n, c) # rest \<Rightarrow> length c)"

definition as_frame :: "matrix \<Rightarrow> frame" where
  "as_frame X = map (\<lambda>(n, xs). (n, Num (map Some xs))) X"

text \<open>\<^verbatim>\<open>df[name]\<close>, \<^verbatim>\<open>df[name] = column\<close> and \<^verbatim>\<open>df.drop(columns=names)\<close>.\<close>

definition getitem :: "(string \<times> 'c) list \<Rightarrow> string \<Rightarrow> error + 'c" where
  "getitem df name = (case map_of df name of None \<Rightarrow> Inl KeyError | Some c \<Rightarrow> Inr c)"

definition setitem :: "(string \<times> 'c) list \<Rightarrow> string \<Rightarrow> 'c \<Rightarrow> (string \<times> 'c) list" where
  "setitem df name c =
     (if name \<in> set (map fst df)
      then map (\<lambda>(n, c'). if n = name then (n, c) else (n, c')) df
      else df @ [(name, c)])"

definition drop_columns :: "(string \<times> 'c) list \<Rightarrow> string list \<Rightarrow> error + (string \<times> 'c) list" where
  "drop_columns df names =
     (if list_all (\<lambda>n. n \<in> set (map fst df)) names
      then Inr (filter (\<lambda>(n, c). n \<notin> set names) df)
      else Inl KeyError)"

text \<open>Row selection by position, as \<^verbatim>\<open>train_test_split\<close> and the folds of the
  cross-validation do it.\<close>

definition take_rows :: "nat list \<Rightarrow> matrix \<Rightarrow> matrix" where
  "take_rows idx X = map (\<lambda>(n, xs). (n, map (\<lambda>i. xs ! i) idx)) X"

definition rows_of :: "nat \<Rightarrow> matrix \<Rightarrow> real list list" where
  "rows_of n X = map (\<lambda>i. map (\<lambda>(name, xs). xs ! i) X) [0..<n]"

subsection \<open>The libraries' parameters\<close>

datatype rng = RandomState nat

text \<open>\<^verbatim>\<open>check_random_state\<close>: an integer seed gives a fresh generator seeded with it;
  \<open>None\<close> gives the process-wide generator, whose state differs from run to run.\<close>

definition check_random_state :: "nat option \<Rightarrow> rng \<Rightarrow> rng" where
  "check_random_state random_state global_rng =
     (case random_state of None \<Rightarrow> global_rng | Some seed \<Rightarrow> RandomState seed)"

type_synonym predictor = "real list \<Rightarrow> real"

text \<open>What the notebook takes from the libraries as given:
  \<^item> \<open>to_datetime_coerce\<close>: the column that \<^verbatim>\<open>pd.to_datetime(column, errors='coerce')\<close>
    makes of a column of strings. Where pandas reads no date the entry is \<open>NaT\<close>; it may
    read an entry by the format it infers from the first one, so the result is a function
    of the whole column. The result has dtype \<open>datetime64\<close>, unless the dates read have
    different UTC offsets: then it has dtype \<open>object\<close>;
  \<^item> \<open>epoch_datetime\<close>: the timestamp that \<^verbatim>\<open>pd.to_datetime\<close> makes of a number, if
    it is in range;
  \<^item> \<open>shuffle_split\<close>: for \<^verbatim>\<open>train_test_split\<close>, the positions of the training rows
    and of the test rows among \<open>n\<close> rows, drawn with the given generator for the given
    test size (or the \<open>ValueError\<close> for a split that would leave a part empty);
  \<^item> \<open>linear_fit\<close>, \<open>tree_fit\<close>, \<open>forest_fit\<close>: the prediction function that
    \<^verbatim>\<open>LinearRegression\<close>, \<^verbatim>\<open>DecisionTreeRegressor\<close> and
    \<^verbatim>\<open>RandomForestRegressor\<close> learn from the rows \<open>X\<close> and the labels \<open>y\<close>, the
    last two with the given generator.\<close>

record library =
  to_datetime_coerce :: "string option list \<Rightarrow> column"
  epoch_datetime :: "real \<Rightarrow> timestamp option"
  shuffle_split :: "rng \<Rightarrow> nat \<Rightarrow> real \<Rightarrow> error + (nat list \<times> nat list)"
  linear_fit :: "real list list \<Rightarrow> real list \<Rightarrow> predictor"
  tree_fit :: "rng \<Rightarrow> real list list \<Rightarrow> real list \<Rightarrow> predictor"
  forest_fit :: "rng \<Rightarrow> real list list \<Rightarrow> real list \<Rightarrow> predictor"

subsection \<open>Cell 3: date transformation\<close>

text \<open>\<^verbatim>\<open>pd.to_datetime(column, errors='coerce')\<close>, by the dtype of the column.\<close>

fun to_datetime :: "library \<Rightarrow> column \<Rightarrow> column" where
  "to_datetime lib (Obj xs) = to_datetime_coerce lib xs"
| "to_datetime lib (Num xs) =
     Datetime (map (\<lambda>x. case x of None \<Rightarrow> None | Some r \<Rightarrow> epoch_datetime lib r) xs)"
| "to_datetime lib (Datetime xs) = Datetime xs"

text \<open>The \<^verbatim>\<open>.dt\<close> accessor exists on datetime columns only: on a column of another
  dtype it raises \<open>AttributeError\<close>.\<close>

fun dt :: "column \<Rightarrow> error + timestamp option list" where
  "dt (Datetime xs) = Inr xs"
| "dt c = Inl AttributeError"

definition dt_field :: "(timestamp \<Rightarrow> int) \<Rightarrow> timestamp option list \<Rightarrow> column" where
  "dt_field f ts = Num (map (map_option (\<lambda>t. real_of_int (f t))) ts)"

definition date_transformation :: "library \<Rightarrow> frame \<Rightarrow> error + frame" where
  "date_transformation lib accidentsData =
     bind_res (getitem accidentsData ''crash_date'') (\<lambda>c.
     let df1 = setitem accidentsData ''crash_date'' (to_datetime lib c) in
     bind_res (bind_res (getitem df1 ''crash_date'') dt) (\<lambda>ts.
     let df2 = setitem df1 ''crash_year'' (dt_field year ts) in
     bind_res (bind_res (getitem df2 ''crash_date'') dt) (\<lambda>ts.
     let df3 = setitem df2 ''crash_month'' (dt_field month ts) in
     bind_res (bind_res (getitem df3 ''crash_date'') dt) (\<lambda>ts.
     let df4 = setitem df3 ''crash_day_of_week'' (dt_field dayofweek ts) in
     drop_columns df4 [''crash_date'', ''injuries_fatal'', ''injuries_incapacitating'',
       ''injuries_non_incapacitating'', ''injuries_reported_not_evident'']))))"

subsection \<open>Cell 5: the numeric and the categorical pipeline\<close>

text \<open>\<^verbatim>\<open>SimpleImputer\<close>. Fitting computes one statistic per column from the entries that
  are present; a column with no entry present has no statistic and is removed from the
  output (\<^verbatim>\<open>keep_empty_features=False\<close>).\<close>

definition observed :: "'a option list \<Rightarrow> 'a list" where
  "observed xs = List.map_filter id xs"

definition median :: "real list \<Rightarrow> real" where
  "median xs =
     (let s = sort xs; n = length s
      in if odd n then s ! (n div 2) else (s ! (n div 2 - 1) + s ! (n div 2)) / 2)"

text \<open>The most frequent value; among several, the smallest.\<close>

definition most_frequent :: "string list \<Rightarrow> string" where
  "most_frequent xs =
     (let m = Max (set (map (count_list xs) xs))
      in Min (set (filter (\<lambda>v. count_list xs v = m) xs)))"

definition imputer_fit :: "('a list \<Rightarrow> 'a) \<Rightarrow> 'a option list \<Rightarrow> 'a option" where
  "imputer_fit strategy xs = (if observed xs = [] then None else Some (strategy (observed xs)))"

definition impute :: "'a \<Rightarrow> 'a option list \<Rightarrow> 'a list" where
  "impute fill xs = map (\<lambda>x. case x of None \<Rightarrow> fill | Some v \<Rightarrow> v) xs"

text \<open>\<^verbatim>\<open>StandardScaler\<close>: the mean and the population standard deviation of the fitted
  column. A column that the scaler takes for constant is scaled by 1: one whose variance is
  within the bound that \<^verbatim>\<open>_is_constant_feature\<close> computes from the machine epsilon of
  \<open>float64\<close>, the variance, the mean and the number of samples.\<close>

definition mean :: "real list \<Rightarrow> real" where
  "mean xs = sum_list xs / real (length xs)"

definition variance :: "real list \<Rightarrow> real" where
  "variance xs = mean (map (\<lambda>x. (x - mean xs)\<^sup>2) xs)"

definition std :: "real list \<Rightarrow> real" where
  "std xs = sqrt (variance xs)"

definition eps :: real where
  "eps = 1 / 2 ^ 52"

definition is_constant_feature :: "real \<Rightarrow> real \<Rightarrow> nat \<Rightarrow> bool" where
  "is_constant_feature var m n_samples \<longleftrightarrow>
     var \<le> real n_samples * eps * var + (real n_samples * m * eps)\<^sup>2"

definition scaler_fit :: "real list \<Rightarrow> real \<times> real" where
  "scaler_fit xs =
     (mean xs,
      if is_constant_feature (variance xs) (mean xs) (length xs) then 1 else std xs)"

definition scaler_transform :: "real \<times> real \<Rightarrow> real list \<Rightarrow> real list" where
  "scaler_transform ms xs = map (\<lambda>x. (x - fst ms) / snd ms) xs"

text \<open>\<^verbatim>\<open>OneHotEncoder(handle_unknown='ignore')\<close>: the categories are the sorted distinct
  values of the fitted column; the output has one indicator column per category.\<close>

definition onehot_fit :: "string list \<Rightarrow> string list" where
  "onehot_fit xs = sort (remdups xs)"

definition onehot_transform :: "string list \<Rightarrow> string list \<Rightarrow> real list list" where
  "onehot_transform categories xs =
     map (\<lambda>c. map (\<lambda>v. if v = c then 1 else 0) xs) categories"

text \<open>\<open>num_pipeline\<close> = [imputer (median), scaler] and \<open>cat_pipeline\<close> = [imputer
  (most frequent), one-hot], fitted on one column. \<open>None\<close>: the imputer removed the
  column.\<close>

record num_fitted =
  num_statistic :: real
  scaler_mean :: real
  scaler_scale :: real

record cat_fitted =
  cat_statistic :: string
  onehot_categories :: "string list"

definition num_pipeline_fit :: "real option list \<Rightarrow> num_fitted option" where
  "num_pipeline_fit xs =
     (case imputer_fit median xs of
        None \<Rightarrow> None
      | Some med \<Rightarrow>
          let ms = scaler_fit (impute med xs)
          in Some \<lparr>num_statistic = med, scaler_mean = fst ms, scaler_scale = snd ms\<rparr>)"

definition num_pipeline_transform :: "num_fitted \<Rightarrow> real option list \<Rightarrow> real list" where
  "num_pipeline_transform f xs =
     scaler_transform (scaler_mean f, scaler_scale f) (impute (num_statistic f) xs)"

definition cat_pipeline_fit :: "string option list \<Rightarrow> cat_fitted option" where
  "cat_pipeline_fit xs =
     (case imputer_fit most_frequent xs of
        None \<Rightarrow> None
      | Some fill \<Rightarrow>
          Some \<lparr>cat_statistic = fill, onehot_categories = onehot_fit (impute fill xs)\<rparr>)"

definition cat_pipeline_transform :: "cat_fitted \<Rightarrow> string option list \<Rightarrow> real list list" where
  "cat_pipeline_transform f xs =
     onehot_transform (onehot_categories f) (impute (cat_statistic f) xs)"

subsection \<open>Cell 7: the column transformer \<open>preprocessing\<close>\<close>

text \<open>\<^verbatim>\<open>make_column_selector(dtype_include=np.number)\<close> and
  \<^verbatim>\<open>make_column_selector(dtype_include=object)\<close>; columns of any other dtype are dropped.\<close>

definition select_number :: "frame \<Rightarrow> (string \<times> real option list) list" where
  "select_number df =
     List.map_filter (\<lambda>(n, c). case c of Num xs \<Rightarrow> Some (n, xs) | _ \<Rightarrow> None) df"

definition select_object :: "frame \<Rightarrow> (string \<times> string option list) list" where
  "select_object df =
     List.map_filter (\<lambda>(n, c). case c of Obj xs \<Rightarrow> Some (n, xs) | _ \<Rightarrow> None) df"

record preprocessing_fitted =
  num_columns :: "(string \<times> num_fitted option) list"
  cat_columns :: "(string \<times> cat_fitted option) list"

text \<open>Fitting: each pipeline is fitted on the columns its selector picks. The selectors
  give column names, and a name that the frame has more than once is a \<open>ValueError\<close>
  (the selected columns are not unique). A pipeline with no column is skipped; one whose
  columns are all removed by its imputer hands an array without features to its second
  step, which raises \<open>ValueError\<close> (so does an array without rows: then no column has an
  entry).\<close>

definition unique_columns :: "frame \<Rightarrow> string list \<Rightarrow> bool" where
  "unique_columns df names = list_all (\<lambda>n. length (filter (\<lambda>(m, c). m = n) df) = 1) names"

definition all_removed :: "(string \<times> 'f option) list \<Rightarrow> bool" where
  "all_removed cols = (cols \<noteq> [] \<and> list_all (\<lambda>(n, f). f = None) cols)"

definition preprocessing_fit :: "frame \<Rightarrow> error + preprocessing_fitted" where
  "preprocessing_fit df =
     (let nums = map (\<lambda>(n, xs). (n, num_pipeline_fit xs)) (select_number df);
          cats = map (\<lambda>(n, xs). (n, cat_pipeline_fit xs)) (select_object df)
      in if \<not> unique_columns df (map fst nums @ map fst cats) then Inl ValueError
         else if all_removed nums \<or> all_removed cats then Inl ValueError
         else Inr \<lparr>num_columns = nums, cat_columns = cats\<rparr>)"

text \<open>Transforming: the fitted columns are looked up by name; a missing column, or one of
  another dtype, is a \<open>ValueError\<close>. The output columns are named as
  \<^verbatim>\<open>get_feature_names_out\<close> names them.\<close>

definition num_input :: "frame \<Rightarrow> string \<Rightarrow> error + real option list" where
  "num_input X n = (case map_of X n of Some (Num xs) \<Rightarrow> Inr xs | _ \<Rightarrow> Inl ValueError)"

definition obj_input :: "frame \<Rightarrow> string \<Rightarrow> error + string option list" where
  "obj_input X n = (case map_of X n of Some (Obj xs) \<Rightarrow> Inr xs | _ \<Rightarrow> Inl ValueError)"

definition num_output :: "string \<times> num_fitted option \<times> real option list \<Rightarrow> matrix" where
  "num_output nfx =
     (case nfx of (n, f, xs) \<Rightarrow>
        (case f of None \<Rightarrow> []
         | Some f' \<Rightarrow> [(''pipeline-1__'' @ n, num_pipeline_transform f' xs)]))"

definition cat_output :: "string \<times> cat_fitted option \<times> string option list \<Rightarrow> matrix" where
  "cat_output nfx =
     (case nfx of (n, f, xs) \<Rightarrow>
        (case f of None \<Rightarrow> []
         | Some f' \<Rightarrow>
             zip (map (\<lambda>c. ''pipeline-2__'' @ n @ ''_'' @ c) (onehot_categories f'))
                 (cat_pipeline_transform f' xs)))"

definition preprocessing_transform :: "preprocessing_fitted \<Rightarrow> frame \<Rightarrow> error + matrix" where
  "preprocessing_transform p X =
     bind_res (traverse (\<lambda>(n, f). bind_res (num_input X n) (\<lambda>xs. Inr (n, f, xs)))
                 (num_columns p)) (\<lambda>nums.
     bind_res (traverse (\<lambda>(n, f). bind_res (obj_input X n) (\<lambda>xs. Inr (n, f, xs)))
                 (cat_columns p)) (\<lambda>cats.
     Inr (concat (map num_output nums) @ concat (map cat_output cats))))"

text \<open>The stacked output is a sparse matrix when the one-hot block is present and the
  density of the whole, stored entries over all entries, is below
  \<^verbatim>\<open>sparse_threshold=0.3\<close>. Per row the numeric block stores every entry and the one-hot
  block one entry per column it encodes.\<close>

definition kept :: "(string \<times> 'f option) list \<Rightarrow> nat" where
  "kept cols = length (filter (\<lambda>(n, f). f \<noteq> None) cols)"

definition n_categories :: "(string \<times> cat_fitted option) list \<Rightarrow> nat" where
  "n_categories cols =
     sum_list (map (\<lambda>(n, f). case f of None \<Rightarrow> 0 | Some f' \<Rightarrow> length (onehot_categories f')) cols)"

definition sparse_output :: "preprocessing_fitted \<Rightarrow> bool" where
  "sparse_output p =
     (cat_columns p \<noteq> [] \<and>
      10 * (kept (num_columns p) + kept (cat_columns p))
        < 3 * (kept (num_columns p) + n_categories (cat_columns p)))"

subsection \<open>Estimators\<close>

datatype regressor =
    LinearRegression
  | DecisionTreeRegressor "nat option"
  | RandomForestRegressor "nat option"

definition regressor_fit ::
  "library \<Rightarrow> rng \<Rightarrow> regressor \<Rightarrow> real list list \<Rightarrow> real list \<Rightarrow> predictor" where
  "regressor_fit lib global_rng r X y =
     (case r of
        LinearRegression \<Rightarrow> linear_fit lib X y
      | DecisionTreeRegressor random_state \<Rightarrow>
          tree_fit lib (check_random_state random_state global_rng) X y
      | RandomForestRegressor random_state \<Rightarrow>
          forest_fit lib (check_random_state random_state global_rng) X y)"

text \<open>A pipeline [\<open>preprocessing\<close>, regressor]. Fitting fits \<open>preprocessing\<close> on the
  features, transforms them and fits the regressor on the result; predicting transforms
  with the fitted \<open>preprocessing\<close> and applies the fitted regressor to each row.\<close>

definition pipeline_fit ::
  "library \<Rightarrow> rng \<Rightarrow> regressor \<Rightarrow> matrix \<Rightarrow> real list
     \<Rightarrow> error + (preprocessing_fitted \<times> predictor)" where
  "pipeline_fit lib global_rng r X y =
     bind_res (preprocessing_fit (as_frame X)) (\<lambda>p.
     bind_res (preprocessing_transform p (as_frame X)) (\<lambda>Xt.
     if Xt = [] \<or> length y \<noteq> mrows X then Inl ValueError
     else Inr (p, regressor_fit lib global_rng r (rows_of (mrows X) Xt) y)))"

definition pipeline_predict ::
  "preprocessing_fitted \<times> predictor \<Rightarrow> matrix \<Rightarrow> error + real list" where
  "pipeline_predict pf X =
     bind_res (preprocessing_transform (fst pf) (as_frame X)) (\<lambda>Xt.
     Inr (map (snd pf) (rows_of (mrows X) Xt)))"

definition root_mean_squared_error :: "real list \<Rightarrow> real list \<Rightarrow> error + real" where
  "root_mean_squared_error y_true y_pred =
     (if length y_true \<noteq> length y_pred \<or> y_true = [] then Inl ValueError
      else Inr (sqrt (mean (map (\<lambda>(t, p). (t - p)\<^sup>2) (zip y_true y_pred)))))"

text \<open>The calls on pipelines that a run makes, in the order they are made: by a cell on
  one of its pipelines or, within \<^verbatim>\<open>cross_val_score\<close>, by the library on a clone. A call
  of \<^verbatim>\<open>fit\<close> is recorded with the final estimator of the pipeline, the data it is given
  and the predictor it has learnt.\<close>

datatype call =
    Fit regressor matrix "real list" predictor
  | Predict regressor matrix
  | Rmse "real list" "real list"
  | CrossValScore regressor matrix "real list" nat
  | Dump regressor string

text \<open>\<^verbatim>\<open>cross_val_score(estimator, X, y, scoring="neg_root_mean_squared_error", cv=k)\<close> for
  a regressor: \<open>k\<close> consecutive folds without shuffling; on each, a clone of the estimator is
  fitted on the other folds and scored on this one. A fold that fails scores \<open>NaN\<close>; if all
  fits fail, \<open>ValueError\<close>.\<close>

definition kfold :: "nat \<Rightarrow> nat \<Rightarrow> (nat list \<times> nat list) list" where
  "kfold n k =
     map (\<lambda>i. let start = i * (n div k) + min i (n mod k);
                  stop = start + n div k + (if i < n mod k then 1 else 0)
              in (filter (\<lambda>j. j < start \<or> stop \<le> j) [0..<n], [start..<stop]))
       [0..<k]"

record fold_result =
  fold_fitted :: bool
  fold_score :: "real option"
  fold_calls :: "call list"

definition fit_and_score ::
  "library \<Rightarrow> rng \<Rightarrow> regressor \<Rightarrow> matrix \<Rightarrow> real list \<Rightarrow> nat list \<times> nat list
     \<Rightarrow> fold_result" where
  "fit_and_score lib global_rng r X y part =
     (let X_train = take_rows (fst part) X; y_train = map (\<lambda>i. y ! i) (fst part);
          X_test = take_rows (snd part) X; y_test = map (\<lambda>i. y ! i) (snd part)
      in case pipeline_fit lib global_rng r X_train y_train of
           Inl e \<Rightarrow> \<lparr>fold_fitted = False, fold_score = None, fold_calls = []\<rparr>
         | Inr pf \<Rightarrow>
             (case pipeline_predict pf X_test of
                Inl e \<Rightarrow>
                  \<lparr>fold_fitted = True, fold_score = None,
                   fold_calls = [Fit r X_train y_train (snd pf)]\<rparr>
              | Inr y_pred \<Rightarrow>
                  (case root_mean_squared_error y_test y_pred of
                     Inl e \<Rightarrow>
                       \<lparr>fold_fitted = True, fold_score = None,
                        fold_calls = [Fit r X_train y_train (snd pf), Predict r X_test]\<rparr>
                   | Inr v \<Rightarrow>
                       \<lparr>fold_fitted = True, fold_score = Some (- v),
                        fold_calls = [Fit r X_train y_train (snd pf), Predict r X_test,
                                      Rmse y_test y_pred]\<rparr>)))"

definition cross_val_score ::
  "library \<Rightarrow> rng \<Rightarrow> regressor \<Rightarrow> matrix \<Rightarrow> real list \<Rightarrow> nat
     \<Rightarrow> error + (real option list \<times> call list)" where
  "cross_val_score lib global_rng r X y cv =
     (if length y \<noteq> mrows X \<or> cv < 2 \<or> mrows X < cv then Inl ValueError
      else let results = map (fit_and_score lib global_rng r X y) (kfold (mrows X) cv)
           in if list_all (\<lambda>res. \<not> fold_fitted res) results then Inl ValueError
              else Inr (map fold_score results, concat (map fold_calls results)))"

subsection \<open>The notebook's variables\<close>

record pipeline =
  final_estimator :: regressor
  fitted_predictor :: "predictor option"

record saved =
  saved_preprocessing :: "preprocessing_fitted option"
  saved_pipeline :: pipeline

text \<open>One field per variable of the notebook, the files written, and the calls made
  (\<open>trace\<close>).
  All three pipelines hold the one object \<open>preprocessing\<close> as their first step
  (\<^verbatim>\<open>make_pipeline\<close> and \<^verbatim>\<open>Pipeline\<close> do not copy it), so its fitted state is one
  field, which every fit overwrites. \<open>prepared_array\<close> is \<open>accidentsData_prepared\<close> between
  cells 8 and 9 (the stacked array, and whether it is sparse). A pipeline variable is
  \<open>None\<close> until its cell has run.\<close>

record state =
  accidentsData :: frame
  preprocessing :: "preprocessing_fitted option"
  prepared_array :: "matrix \<times> bool"
  accidentsData_prepared :: matrix
  train_set :: matrix
  test_set :: matrix
  accidentsTrain :: matrix
  accidentsTrain_labels :: "real list"
  lin_reg :: "pipeline option"
  predictions :: "real list"
  lin_rmse :: real
  tree_reg :: "pipeline option"
  tree_rmse :: real
  tree_rmses :: "real option list"
  full_pipeline :: "pipeline option"
  predictions_rf :: "real list"
  rmse_rf :: real
  disk :: "string \<Rightarrow> saved option"
  trace :: "call list"

definition loadData :: "frame \<Rightarrow> state" where
  "loadData csv =
     \<lparr>accidentsData = csv, preprocessing = None, prepared_array = ([], False),
      accidentsData_prepared = [], train_set = [], test_set = [], accidentsTrain = [],
      accidentsTrain_labels = [], lin_reg = None, predictions = [], lin_rmse = 0,
      tree_reg = None, tree_rmse = 0, tree_rmses = [], full_pipeline = None,
      predictions_rf = [], rmse_rf = 0, disk = (\<lambda>file. None), trace = []\<rparr>"

text \<open>\<^verbatim>\<open>pipeline.fit(X, y)\<close>, \<^verbatim>\<open>pipeline.predict(X)\<close> and
  \<^verbatim>\<open>root_mean_squared_error(y_true, y_pred)\<close> as the cells call them.\<close>

definition fit ::
  "library \<Rightarrow> rng \<Rightarrow> pipeline \<Rightarrow> matrix \<Rightarrow> real list \<Rightarrow> state \<Rightarrow> error + (pipeline \<times> state)" where
  "fit lib global_rng pl X y s =
     bind_res (pipeline_fit lib global_rng (final_estimator pl) X y) (\<lambda>pf.
     Inr (pl\<lparr>fitted_predictor := Some (snd pf)\<rparr>,
          s\<lparr>preprocessing := Some (fst pf),
            trace := trace s @ [Fit (final_estimator pl) X y (snd pf)]\<rparr>))"

definition predict :: "pipeline \<Rightarrow> matrix \<Rightarrow> state \<Rightarrow> error + (real list \<times> state)" where
  "predict pl X s =
     (case (preprocessing s, fitted_predictor pl) of
        (Some p, Some f) \<Rightarrow>
          bind_res (pipeline_predict (p, f) X) (\<lambda>ys.
          Inr (ys, s\<lparr>trace := trace s @ [Predict (final_estimator pl) X]\<rparr>))
      | _ \<Rightarrow> Inl NotFittedError)"

definition rmse :: "real list \<Rightarrow> real list \<Rightarrow> state \<Rightarrow> error + (real \<times> state)" where
  "rmse y_true y_pred s =
     bind_res (root_mean_squared_error y_true y_pred) (\<lambda>v.
     Inr (v, s\<lparr>trace := trace s @ [Rmse y_true y_pred]\<rparr>))"

subsection \<open>The code cells\<close>

definition cell3 :: "library \<Rightarrow> state \<Rightarrow> error + state" where
  "cell3 lib s =
     bind_res (date_transformation lib (accidentsData s)) (\<lambda>df.
     Inr (s\<lparr>accidentsData := df\<rparr>))"

definition cell8 :: "state \<Rightarrow> error + state" where
  "cell8 s =
     bind_res (preprocessing_fit (accidentsData s)) (\<lambda>p.
     bind_res (preprocessing_transform p (accidentsData s)) (\<lambda>X.
     Inr (s\<lparr>preprocessing := Some p, prepared_array := (X, sparse_output p)\<rparr>)))"

text \<open>\<^verbatim>\<open>.toarray()\<close> exists on a sparse matrix only.\<close>

definition cell9 :: "state \<Rightarrow> error + state" where
  "cell9 s =
     (if snd (prepared_array s)
      then Inr (s\<lparr>accidentsData_prepared := fst (prepared_array s)\<rparr>)
      else Inl AttributeError)"

definition train_test_split ::
  "library \<Rightarrow> rng \<Rightarrow> matrix \<Rightarrow> real \<Rightarrow> nat option \<Rightarrow> error + (matrix \<times> matrix)" where
  "train_test_split lib global_rng X test_size random_state =
     bind_res (shuffle_split lib (check_random_state random_state global_rng) (mrows X) test_size)
       (\<lambda>idx. Inr (take_rows (fst idx) X, take_rows (snd idx) X))"

definition cell10 :: "library \<Rightarrow> rng \<Rightarrow> state \<Rightarrow> error + state" where
  "cell10 lib global_rng s =
     bind_res (train_test_split lib global_rng (accidentsData_prepared s) (1 / 5) (Some 42))
       (\<lambda>tt.
     let s1 = s\<lparr>train_set := fst tt, test_set := snd tt\<rparr> in
     bind_res (drop_columns (train_set s1) [''pipeline-1__injuries_total'']) (\<lambda>X.
     let s2 = s1\<lparr>accidentsTrain := X\<rparr> in
     bind_res (getitem (train_set s2) ''pipeline-1__injuries_total'') (\<lambda>y.
     Inr (s2\<lparr>accidentsTrain_labels := y\<rparr>))))"

definition cell13 :: "library \<Rightarrow> rng \<Rightarrow> state \<Rightarrow> error + state" where
  "cell13 lib global_rng s =
     bind_res (fit lib global_rng \<lparr>final_estimator = LinearRegression, fitted_predictor = None\<rparr>
                 (accidentsTrain s) (accidentsTrain_labels s) s) (\<lambda>(pl, s1).
     let s2 = s1\<lparr>lin_reg := Some pl\<rparr> in
     bind_res (predict pl (accidentsTrain s2) s2) (\<lambda>(ys, s3).
     Inr (s3\<lparr>predictions := ys\<rparr>)))"

definition cell14 :: "state \<Rightarrow> error + state" where
  "cell14 s =
     bind_res (rmse (accidentsTrain_labels s) (predictions s) s) (\<lambda>(v, s1).
     Inr (s1\<lparr>lin_rmse := v\<rparr>))"

definition cell16 :: "library \<Rightarrow> rng \<Rightarrow> state \<Rightarrow> error + state" where
  "cell16 lib global_rng s =
     bind_res (fit lib global_rng
                 \<lparr>final_estimator = DecisionTreeRegressor (Some 42), fitted_predictor = None\<rparr>
                 (accidentsTrain s) (accidentsTrain_labels s) s) (\<lambda>(pl, s1).
     let s2 = s1\<lparr>tree_reg := Some pl\<rparr> in
     bind_res (predict pl (accidentsTrain s2) s2) (\<lambda>(ys, s3).
     let s4 = s3\<lparr>predictions := ys\<rparr> in
     bind_res (rmse (accidentsTrain_labels s4) (predictions s4) s4) (\<lambda>(v, s5).
     Inr (s5\<lparr>tree_rmse := v\<rparr>))))"

definition cell17 :: "library \<Rightarrow> rng \<Rightarrow> state \<Rightarrow> error + state" where
  "cell17 lib global_rng s =
     (case tree_reg s of
        None \<Rightarrow> Inl NameError
      | Some pl \<Rightarrow>
          bind_res (cross_val_score lib global_rng (final_estimator pl)
                      (accidentsTrain s) (accidentsTrain_labels s) 10) (\<lambda>(scores, calls).
          Inr (s\<lparr>tree_rmses := map (map_option uminus) scores,
                 trace := trace s @
                   CrossValScore (final_estimator pl) (accidentsTrain s)
                     (accidentsTrain_labels s) 10 # calls\<rparr>)))"

definition cell19 :: "library \<Rightarrow> rng \<Rightarrow> state \<Rightarrow> error + state" where
  "cell19 lib global_rng s =
     bind_res (fit lib global_rng
                 \<lparr>final_estimator = RandomForestRegressor (Some 42), fitted_predictor = None\<rparr>
                 (accidentsTrain s) (accidentsTrain_labels s) s) (\<lambda>(pl, s1).
     let s2 = s1\<lparr>full_pipeline := Some pl\<rparr> in
     bind_res (predict pl (accidentsTrain s2) s2) (\<lambda>(ys, s3).
     let s4 = s3\<lparr>predictions_rf := ys\<rparr> in
     bind_res (rmse (accidentsTrain_labels s4) (predictions_rf s4) s4) (\<lambda>(v, s5).
     Inr (s5\<lparr>rmse_rf := v\<rparr>))))"

definition cell21 :: "state \<Rightarrow> error + state" where
  "cell21 s =
     (case full_pipeline s of
        None \<Rightarrow> Inl NameError
      | Some pl \<Rightarrow>
          Inr (s\<lparr>disk := (disk s)(''Traffic_Accident_Injury_Predictor_Model.pkl'' :=
                   Some \<lparr>saved_preprocessing = preprocessing s, saved_pipeline = pl\<rparr>),
                 trace := trace s @
                   [Dump (final_estimator pl) ''Traffic_Accident_Injury_Predictor_Model.pkl'']\<rparr>))"

text \<open>Running cells in order; the first error ends the run.\<close>

fun run :: "(state \<Rightarrow> error + state) list \<Rightarrow> state \<Rightarrow> error + state" where
  "run [] s = Inr s"
| "run (c # cs) s = bind_res (c s) (run cs)"

definition preparation :: "library \<Rightarrow> rng \<Rightarrow> (state \<Rightarrow> error + state) list" where
  "preparation lib global_rng = [cell3 lib, cell8, cell9, cell10 lib global_rng]"

definition training :: "library \<Rightarrow> rng \<Rightarrow> (state \<Rightarrow> error + state) list" where
  "training lib global_rng =
     [cell13 lib global_rng, cell14, cell16 lib global_rng, cell17 lib global_rng,
      cell19 lib global_rng, cell21]"

text \<open>The notebook, run on the frame \<open>csv\<close> that cell 1 reads from
  \<^verbatim>\<open>./data/traffic_accidents.csv\<close>, in a process whose global random generator is in
  state \<open>global_rng\<close>.\<close>

definition notebook :: "library \<Rightarrow> rng \<Rightarrow> frame \<Rightarrow> error + state" where
  "notebook lib global_rng csv =
     run (preparation lib global_rng @ training lib global_rng) (loadData csv)"

subsection \<open>Observing a run\<close>

definition model_file :: string where
  "model_file = ''Traffic_Accident_Injury_Predictor_Model.pkl''"



subsection \<open>Preprocessing an all-numeric frame\<close>

text \<open>The column transformer is fitted a second time inside every pipeline, on
  \<open>accidentsTrain\<close>, a frame whose columns are all \<open>float64\<close> without missing entries.
  There it amounts to standardising every column: \<open>numeric_fitted\<close> is its fitted state
  and \<open>standardized\<close> its output (shown below).\<close>

definition numeric_fitted :: "matrix \<Rightarrow> preprocessing_fitted" where
  "numeric_fitted X =
     \<lparr>num_columns = map (\<lambda>(n, xs). (n, Some \<lparr>num_statistic = median xs,
          scaler_mean = fst (scaler_fit xs), scaler_scale = snd (scaler_fit xs)\<rparr>)) X,
      cat_columns = []\<rparr>"

definition standardized :: "matrix \<Rightarrow> matrix" where
  "standardized X = map (\<lambda>(n, xs). (''pipeline-1__'' @ n, scaler_transform (scaler_fit xs) xs)) X"

text \<open>The rows that the final estimator of a pipeline is given: by \<^verbatim>\<open>fit\<close> on \<open>X\<close>, the
  rows of \<open>X\<close> standardised (\<open>fit_rows\<close>); by \<^verbatim>\<open>predict\<close> on the rows \<open>test\<close> of
  \<open>X\<close> after a fit on its rows \<open>train\<close>, these rows scaled by the means and deviations of
  the rows \<open>train\<close> (\<open>holdout_rows\<close>).\<close>

definition fit_rows :: "matrix \<Rightarrow> real list list" where
  "fit_rows X = rows_of (mrows X) (standardized X)"

definition holdout_rows :: "nat list \<Rightarrow> nat list \<Rightarrow> matrix \<Rightarrow> real list list" where
  "holdout_rows train test X =
     rows_of (length test)
       (map (\<lambda>(n, xs). (''pipeline-1__'' @ n,
               scaler_transform (scaler_fit (map (\<lambda>i. xs ! i) train)) (map (\<lambda>i. xs ! i) test))) X)"

text \<open>The root of the mean of the squared errors; with it, the RMSE on its own training
  rows \<open>X\<close>, \<open>y\<close> of the model that a learning algorithm learns from them, and the RMSE
  on the rows \<open>test\<close> of the model that it learns from the rows \<open>train\<close>.\<close>

definition rms_error :: "real list \<Rightarrow> real list \<Rightarrow> real" where
  "rms_error y_true y_pred =
     sqrt (sum_list (map (\<lambda>(t, p). (t - p)\<^sup>2) (zip y_true y_pred)) / real (length y_true))"


definition holdout_rmse ::
  "(real list list \<Rightarrow> real list \<Rightarrow> predictor) \<Rightarrow> matrix \<Rightarrow> real list \<Rightarrow> nat list \<times> nat list
     \<Rightarrow> real" where
  "holdout_rmse learn X y part =
     (case part of (train, test) \<Rightarrow>
        rms_error (map (\<lambda>i. y ! i) test)
          (map (learn (fit_rows (take_rows train X)) (map (\<lambda>i. y ! i) train))
             (holdout_rows train test X)))"

text \<open>The state in which the training cells, cells 13 to 21, leave the variables when
  they complete (shown below): every result written out in terms of the training features,
  the training labels and the library's three learning algorithms.\<close>

definition fold_calls_of :: "library \<Rightarrow> matrix \<Rightarrow> real list \<Rightarrow> nat list \<times> nat list \<Rightarrow> call list" where
  "fold_calls_of lib X y part =
     (case part of (train, test) \<Rightarrow>
        let f = tree_fit lib (RandomState 42) (fit_rows (take_rows train X)) (map (\<lambda>i. y ! i) train)
        in [Fit (DecisionTreeRegressor (Some 42)) (take_rows train X) (map (\<lambda>i. y ! i) train) f,
            Predict (DecisionTreeRegressor (Some 42)) (take_rows test X),
            Rmse (map (\<lambda>i. y ! i) test) (map f (holdout_rows train test X))])"

definition training_outcome :: "library \<Rightarrow> state \<Rightarrow> state" where
  "training_outcome lib s =
     (let X = accidentsTrain s; y = accidentsTrain_labels s; R = fit_rows X;
          lin = linear_fit lib R y;
          tree = tree_fit lib (RandomState 42) R y;
          forest = forest_fit lib (RandomState 42) R y;
          folds = kfold (length y) 10
      in s\<lparr>preprocessing := Some (numeric_fitted X),
           lin_reg := Some \<lparr>final_estimator = LinearRegression, fitted_predictor = Some lin\<rparr>,
           predictions := map tree R,
           lin_rmse := rms_error y (map lin R),
           tree_reg := Some \<lparr>final_estimator = DecisionTreeRegressor (Some 42),
                              fitted_predictor = Some tree\<rparr>,
           tree_rmse := rms_error y (map tree R),
           tree_rmses := map (\<lambda>part. Some (holdout_rmse (tree_fit lib (RandomState 42)) X y part)) folds,
           full_pipeline := Some \<lparr>final_estimator = RandomForestRegressor (Some 42),
                                   fitted_predictor = Some forest\<rparr>,
           predictions_rf := map forest R,
           rmse_rf := rms_error y (map forest R),
           disk := (disk s)(model_file :=
             Some \<lparr>saved_preprocessing = Some (numeric_fitted X),
                   saved_pipeline = \<lparr>final_estimator = RandomForestRegressor (Some 42),
                                     fitted_predictor = Some forest\<rparr>\<rparr>),
           trace := trace s @
             [Fit LinearRegression X y lin, Predict LinearRegression X, Rmse y (map lin R),
              Fit (DecisionTreeRegressor (Some 42)) X y tree,
              Predict (DecisionTreeRegressor (Some 42)) X, Rmse y (map tree R),
              CrossValScore (DecisionTreeRegressor (Some 42)) X y 10] @
             concat (map (fold_calls_of lib X y) folds) @
             [Fit (RandomForestRegressor (Some 42)) X y forest,
              Predict (RandomForestRegressor (Some 42)) X, Rmse y (map forest R),
              Dump (RandomForestRegressor (Some 42)) model_file]\<rparr>)"

subsection \<open>An example run\<close>

text \<open>Thirteen accidents on one day, each of its own first crash type, four of them
  with one injury. The library is instantiated with simple stand-ins: a conversion of dates
  that knows three strings (the one date in the format of the dataset, and the same date
  written with two UTC offsets), a split that holds out the last rows, a decision tree that
  memorises its training rows (as an unrestricted tree does on distinct rows), and a linear
  model and a forest that predict the mean label. The other definitions are the values the
  cells compute on it.\<close>

definition example_csv :: frame where
  "example_csv =
    [(''crash_date'', Obj (replicate 13 (Some ''07/29/2023 01:00:00 PM''))),
     (''first_crash_type'', Obj (map Some
        [''ANGLE'', ''ANIMAL'', ''FIXED OBJECT'', ''HEAD ON'', ''OVERTURNED'', ''PEDALCYCLIST'',
        ''PEDESTRIAN'', ''REAR END'', ''REAR TO FRONT'', ''REAR TO REAR'', ''REAR TO SIDE'',
        ''TRAIN'', ''TURNING''])),
     (''injuries_total'', Num (map Some [0, 1, 0, 0, 1, 0, 0, 0, 1, 0, 0, 1, 0])),
     (''injuries_fatal'', Num (replicate 13 (Some 0))),
     (''injuries_incapacitating'', Num (replicate 13 (Some 0))),
     (''injuries_non_incapacitating'', Num (map Some [0, 1, 0, 0, 1, 0, 0, 0, 1, 0, 0, 1, 0])),
     (''injuries_reported_not_evident'', Num (replicate 13 (Some 0)))]"

definition example_dated :: frame where
  "example_dated =
    [(''first_crash_type'', Obj (map Some
        [''ANGLE'', ''ANIMAL'', ''FIXED OBJECT'', ''HEAD ON'', ''OVERTURNED'', ''PEDALCYCLIST'',
        ''PEDESTRIAN'', ''REAR END'', ''REAR TO FRONT'', ''REAR TO REAR'', ''REAR TO SIDE'',
        ''TRAIN'', ''TURNING''])),
     (''injuries_total'', Num (map Some [0, 1, 0, 0, 1, 0, 0, 0, 1, 0, 0, 1, 0])),
     (''crash_year'', Num (replicate 13 (Some 2023))),
     (''crash_month'', Num (replicate 13 (Some 7))),
     (''crash_day_of_week'', Num (replicate 13 (Some 5)))]"

definition example_fitted :: preprocessing_fitted where
  "example_fitted =
    \<lparr>num_columns =
       [(''injuries_total'', Some \<lparr>num_statistic = 0, scaler_mean = 4 / 13, scaler_scale = 6 / 13\<rparr>),
        (''crash_year'', Some \<lparr>num_statistic = 2023, scaler_mean = 2023, scaler_scale = 1\<rparr>),
        (''crash_month'', Some \<lparr>num_statistic = 7, scaler_mean = 7, scaler_scale = 1\<rparr>),
        (''crash_day_of_week'', Some \<lparr>num_statistic = 5, scaler_mean = 5, scaler_scale = 1\<rparr>)],
     cat_columns =
       [(''first_crash_type'', Some \<lparr>cat_statistic = ''ANGLE'', onehot_categories =
          [''ANGLE'', ''ANIMAL'', ''FIXED OBJECT'', ''HEAD ON'', ''OVERTURNED'', ''PEDALCYCLIST'',
          ''PEDESTRIAN'', ''REAR END'', ''REAR TO FRONT'', ''REAR TO REAR'', ''REAR TO SIDE'',
          ''TRAIN'', ''TURNING'']\<rparr>)]\<rparr>"

definition example_prepared :: matrix where
  "example_prepared =
    [(''pipeline-1__injuries_total'',
        [- (2 / 3), 3 / 2, - (2 / 3), - (2 / 3), 3 / 2, - (2 / 3), - (2 / 3), - (2 / 3), 3 / 2,
         - (2 / 3), - (2 / 3), 3 / 2, - (2 / 3)]),
     (''pipeline-1__crash_year'',
        [0, 0, 0, 0, 0, 0, 0, 0, 0, 0, 0, 0, 0]),
     (''pipeline-1__crash_month'',
        [0, 0, 0, 0, 0, 0, 0, 0, 0, 0, 0, 0, 0]),
     (''pipeline-1__crash_day_of_week'',
        [0, 0, 0, 0, 0, 0, 0, 0, 0, 0, 0, 0, 0]),
     (''pipeline-2__first_crash_type_ANGLE'',
        [1, 0, 0, 0, 0, 0, 0, 0, 0, 0, 0, 0, 0]),
     (''pipeline-2__first_crash_type_ANIMAL'',
        [0, 1, 0, 0, 0, 0, 0, 0, 0, 0, 0, 0, 0]),
     (''pipeline-2__first_crash_type_FIXED OBJECT'',
        [0, 0, 1, 0, 0, 0, 0, 0, 0, 0, 0, 0, 0]),
     (''pipeline-2__first_crash_type_HEAD ON'',
        [0, 0, 0, 1, 0, 0, 0, 0, 0, 0, 0, 0, 0]),
     (''pipeline-2__first_crash_type_OVERTURNED'',
        [0, 0, 0, 0, 1, 0, 0, 0, 0, 0, 0, 0, 0]),
     (''pipeline-2__first_crash_type_PEDALCYCLIST'',
        [0, 0, 0, 0, 0, 1, 0, 0, 0, 0, 0, 0, 0]),
     (''pipeline-2__first_crash_type_PEDESTRIAN'',
        [0, 0, 0, 0, 0, 0, 1, 0, 0, 0, 0, 0, 0]),
     (''pipeline-2__first_crash_type_REAR END'',
        [0, 0, 0, 0, 0, 0, 0, 1, 0, 0, 0, 0, 0]),
     (''pipeline-2__first_crash_type_REAR TO FRONT'',
        [0, 0, 0, 0, 0, 0, 0, 0, 1, 0, 0, 0, 0]),
     (''pipeline-2__first_crash_type_REAR TO REAR'',
        [0, 0, 0, 0, 0, 0, 0, 0, 0, 1, 0, 0, 0]),
     (''pipeline-2__first_crash_type_REAR TO SIDE'',
        [0, 0, 0, 0, 0, 0, 0, 0, 0, 0, 1, 0, 0]),
     (''pipeline-2__first_crash_type_TRAIN'',
        [0, 0, 0, 0, 0, 0, 0, 0, 0, 0, 0, 1, 0]),
     (''pipeline-2__first_crash_type_TURNING'',
        [0, 0, 0, 0, 0, 0, 0, 0, 0, 0, 0, 0, 1])]"

definition example_train :: matrix where
  "example_train =
    [(''pipeline-1__crash_year'',
        [0, 0, 0, 0, 0, 0, 0, 0, 0, 0]),
     (''pipeline-1__crash_month'',
        [0, 0, 0, 0, 0, 0, 0, 0, 0, 0]),
     (''pipeline-1__crash_day_of_week'',
        [0, 0, 0, 0, 0, 0, 0, 0, 0, 0]),
     (''pipeline-2__first_crash_type_ANGLE'',
        [0, 0, 0, 0, 0, 0, 0, 0, 0, 1]),
     (''pipeline-2__first_crash_type_ANIMAL'',
        [0, 0, 0, 0, 0, 0, 0, 0, 1, 0]),
     (''pipeline-2__first_crash_type_FIXED OBJECT'',
        [0, 0, 0, 0, 0, 0, 0, 1, 0, 0]),
     (''pipeline-2__first_crash_type_HEAD ON'',
        [0, 0, 0, 0, 0, 0, 1, 0, 0, 0]),
     (''pipeline-2__first_crash_type_OVERTURNED'',
        [0, 0, 0, 0, 0, 1, 0, 0, 0, 0]),
     (''pipeline-2__first_crash_type_PEDALCYCLIST'',
        [0, 0, 0, 0, 1, 0, 0, 0, 0, 0]),
     (''pipeline-2__first_crash_type_PEDESTRIAN'',
        [0, 0, 0, 1, 0, 0, 0, 0, 0, 0]),
     (''pipeline-2__first_crash_type_REAR END'',
        [0, 0, 1, 0, 0, 0, 0, 0, 0, 0]),
     (''pipeline-2__first_crash_type_REAR TO FRONT'',
        [0, 1, 0, 0, 0, 0, 0, 0, 0, 0]),
     (''pipeline-2__first_crash_type_REAR TO REAR'',
        [1, 0, 0, 0, 0, 0, 0, 0, 0, 0]),
     (''pipeline-2__first_crash_type_REAR TO SIDE'',
        [0, 0, 0, 0, 0, 0, 0, 0, 0, 0]),
     (''pipeline-2__first_crash_type_TRAIN'',
        [0, 0, 0, 0, 0, 0, 0, 0, 0, 0]),
     (''pipeline-2__first_crash_type_TURNING'',
        [0, 0, 0, 0, 0, 0, 0, 0, 0, 0])]"

definition example_labels :: "real list" where
  "example_labels = [- (2 / 3), 3 / 2, - (2 / 3), - (2 / 3), - (2 / 3), 3 / 2, - (2 / 3), - (2 / 3), 3 / 2,
        - (2 / 3)]"

definition memoriser :: "real list list \<Rightarrow> real list \<Rightarrow> predictor" where
  "memoriser X y row = (case map_of (zip X y) row of None \<Rightarrow> mean y | Some v \<Rightarrow> v)"

definition example_date :: "string \<Rightarrow> (timestamp \<times> int option) option" where
  "example_date s =
     (if s = ''07/29/2023 01:00:00 PM'' then Some (Timestamp 2023 7 5, None)
      else if s = ''2023-07-29 13:00:00+01:00'' then Some (Timestamp 2023 7 5, Some 60)
      else if s = ''2023-07-29 13:00:00+02:00'' then Some (Timestamp 2023 7 5, Some 120)
      else None)"

definition example_to_datetime :: "string option list \<Rightarrow> column" where
  "example_to_datetime xs =
     (let dates = map (\<lambda>x. case x of None \<Rightarrow> None | Some s \<Rightarrow> example_date s) xs
      in if length (remdups (map snd (observed dates))) \<le> 1
         then Datetime (map (map_option fst) dates)
         else Obj (map (\<lambda>x. case x of None \<Rightarrow> None
                          | Some s \<Rightarrow> if example_date s = None then None else Some s) xs))"

definition example_library :: library where
  "example_library =
    \<lparr>to_datetime_coerce = example_to_datetime,
     epoch_datetime = (\<lambda>r. None),
     shuffle_split = (\<lambda>g n test_size.
        let n_test = nat \<lceil>test_size * real n\<rceil>
        in if n \<le> n_test then Inl ValueError
           else Inr (drop n_test (rev [0..<n]), take n_test (rev [0..<n]))),
     linear_fit = (\<lambda>X y row. mean y),
     tree_fit = (\<lambda>g. memoriser),
     forest_fit = (\<lambda>g X y row. mean y)\<rparr>"

definition example_outcome :: state where
  "example_outcome = projr (notebook example_library (RandomState 0) example_csv)"

subsection \<open>Small frames with missing entries\<close>

text \<open>Five accidents with a missing weather condition and a missing number of units:
  in \<open>gaps_csv\<close> two of the dates do not parse, in \<open>unparsed_csv\<close> none does. The other
  definitions are the values cells 3 and 8 compute on them.\<close>

definition gaps_csv :: frame where
  "gaps_csv =
    [(''crash_date'', Obj [Some ''07/29/2023 01:00:00 PM'', Some ''unknown'', Some ''07/29/2023 01:00:00 PM'',
        None, Some ''07/29/2023 01:00:00 PM'']),
     (''weather_condition'', Obj [Some ''RAIN'', Some ''CLEAR'', None, Some ''RAIN'', Some ''SNOW'']),
     (''num_units'', Num [Some 1, None, Some 3, Some 2, Some 4]),
     (''injuries_total'', Num [Some 0, Some 0, Some 1, Some 0, Some 0]),
     (''injuries_fatal'', Num [Some 0, Some 0, Some 0, Some 0, Some 0]),
     (''injuries_incapacitating'', Num [Some 0, Some 0, Some 0, Some 0, Some 0]),
     (''injuries_non_incapacitating'', Num [Some 0, Some 0, Some 1, Some 0, Some 0]),
     (''injuries_reported_not_evident'', Num [Some 0, Some 0, Some 0, Some 0, Some 0])]"

definition gaps_dated :: frame where
  "gaps_dated =
    [(''weather_condition'', Obj [Some ''RAIN'', Some ''CLEAR'', None, Some ''RAIN'', Some ''SNOW'']),
     (''num_units'', Num [Some 1, None, Some 3, Some 2, Some 4]),
     (''injuries_total'', Num [Some 0, Some 0, Some 1, Some 0, Some 0]),
     (''crash_year'', Num [Some 2023, None, Some 2023, None, Some 2023]),
     (''crash_month'', Num [Some 7, None, Some 7, None, Some 7]),
     (''crash_day_of_week'', Num [Some 5, None, Some 5, None, Some 5])]"

definition gaps_fitted :: preprocessing_fitted where
  "gaps_fitted =
    \<lparr>num_columns =
       [(''num_units'', Some \<lparr>num_statistic = 5 / 2, scaler_mean = 5 / 2, scaler_scale = 1\<rparr>),
        (''injuries_total'', Some \<lparr>num_statistic = 0, scaler_mean = 1 / 5, scaler_scale = 2 / 5\<rparr>),
        (''crash_year'', Some \<lparr>num_statistic = 2023, scaler_mean = 2023, scaler_scale = 1\<rparr>),
        (''crash_month'', Some \<lparr>num_statistic = 7, scaler_mean = 7, scaler_scale = 1\<rparr>),
        (''crash_day_of_week'', Some \<lparr>num_statistic = 5, scaler_mean = 5, scaler_scale = 1\<rparr>)],
     cat_columns =
       [(''weather_condition'', Some \<lparr>cat_statistic = ''RAIN'', onehot_categories = [''CLEAR'', ''RAIN'', ''SNOW'']\<rparr>)]\<rparr>"

definition gaps_prepared :: matrix where
  "gaps_prepared =
    [(''pipeline-1__num_units'', [- (3 / 2), 0, 1 / 2, - (1 / 2), 3 / 2]),
     (''pipeline-1__injuries_total'', [- (1 / 2), - (1 / 2), 2, - (1 / 2), - (1 / 2)]),
     (''pipeline-1__crash_year'', [0, 0, 0, 0, 0]),
     (''pipeline-1__crash_month'', [0, 0, 0, 0, 0]),
     (''pipeline-1__crash_day_of_week'', [0, 0, 0, 0, 0]),
     (''pipeline-2__weather_condition_CLEAR'', [0, 1, 0, 0, 0]),
     (''pipeline-2__weather_condition_RAIN'', [1, 0, 1, 1, 0]),
     (''pipeline-2__weather_condition_SNOW'', [0, 0, 0, 0, 1])]"

definition unparsed_csv :: frame where
  "unparsed_csv =
    [(''crash_date'', Obj [Some ''unknown'', Some ''unknown'', None, Some ''unknown'', Some ''unknown'']),
     (''weather_condition'', Obj [Some ''RAIN'', Some ''CLEAR'', None, Some ''RAIN'', Some ''SNOW'']),
     (''num_units'', Num [Some 1, None, Some 3, Some 2, Some 4]),
     (''injuries_total'', Num [Some 0, Some 0, Some 1, Some 0, Some 0]),
     (''injuries_fatal'', Num [Some 0, Some 0, Some 0, Some 0, Some 0]),
     (''injuries_incapacitating'', Num [Some 0, Some 0, Some 0, Some 0, Some 0]),
     (''injuries_non_incapacitating'', Num [Some 0, Some 0, Some 1, Some 0, Some 0]),
     (''injuries_reported_not_evident'', Num [Some 0, Some 0, Some 0, Some 0, Some 0])]"

definition unparsed_dated :: frame where
  "unparsed_dated =
    [(''weather_condition'', Obj [Some ''RAIN'', Some ''CLEAR'', None, Some ''RAIN'', Some ''SNOW'']),
     (''num_units'', Num [Some 1, None, Some 3, Some 2, Some 4]),
     (''injuries_total'', Num [Some 0, Some 0, Some 1, Some 0, Some 0]),
     (''crash_year'', Num [None, None, None, None, None]),
     (''crash_month'', Num [None, None, None, None, None]),
     (''crash_day_of_week'', Num [None, None, None, None, None])]"

definition unparsed_fitted :: preprocessing_fitted where
  "unparsed_fitted =
    \<lparr>num_columns =
       [(''num_units'', Some \<lparr>num_statistic = 5 / 2, scaler_mean = 5 / 2, scaler_scale = 1\<rparr>),
        (''injuries_total'', Some \<lparr>num_statistic = 0, scaler_mean = 1 / 5, scaler_scale = 2 / 5\<rparr>),
        (''crash_year'', None),
        (''crash_month'', None),
        (''crash_day_of_week'', None)],
     cat_columns =
       [(''weather_condition'', Some \<lparr>cat_statistic = ''RAIN'', onehot_categories = [''CLEAR'', ''RAIN'', ''SNOW'']\<rparr>)]\<rparr>"

definition unparsed_prepared :: matrix where
  "unparsed_prepared =
    [(''pipeline-1__num_units'', [- (3 / 2), 0, 1 / 2, - (1 / 2), 3 / 2]),
     (''pipeline-1__injuries_total'', [- (1 / 2), - (1 / 2), 2, - (1 / 2), - (1 / 2)]),
     (''pipeline-2__weather_condition_CLEAR'', [0, 1, 0, 0, 0]),
     (''pipeline-2__weather_condition_RAIN'', [1, 0, 1, 1, 0]),
     (''pipeline-2__weather_condition_SNOW'', [0, 0, 0, 0, 1])]"

text \<open>\<open>blank_csv\<close> is \<open>gaps_csv\<close> with one more column, the number of lanes, of
  which no entry is present. In \<open>offsets_csv\<close> two dates are written with different UTC
  offsets and one is not a date.\<close>

definition blank_csv :: frame where
  "blank_csv =
    [(''crash_date'', Obj [Some ''07/29/2023 01:00:00 PM'', Some ''unknown'', Some ''07/29/2023 01:00:00 PM'',
        None, Some ''07/29/2023 01:00:00 PM'']),
     (''weather_condition'', Obj [Some ''RAIN'', Some ''CLEAR'', None, Some ''RAIN'', Some ''SNOW'']),
     (''num_units'', Num [Some 1, None, Some 3, Some 2, Some 4]),
     (''lane_cnt'', Num [None, None, None, None, None]),
     (''injuries_total'', Num [Some 0, Some 0, Some 1, Some 0, Some 0]),
     (''injuries_fatal'', Num [Some 0, Some 0, Some 0, Some 0, Some 0]),
     (''injuries_incapacitating'', Num [Some 0, Some 0, Some 0, Some 0, Some 0]),
     (''injuries_non_incapacitating'', Num [Some 0, Some 0, Some 1, Some 0, Some 0]),
     (''injuries_reported_not_evident'', Num [Some 0, Some 0, Some 0, Some 0, Some 0])]"

definition blank_dated :: frame where
  "blank_dated =
    [(''weather_condition'', Obj [Some ''RAIN'', Some ''CLEAR'', None, Some ''RAIN'', Some ''SNOW'']),
     (''num_units'', Num [Some 1, None, Some 3, Some 2, Some 4]),
     (''lane_cnt'', Num [None, None, None, None, None]),
     (''injuries_total'', Num [Some 0, Some 0, Some 1, Some 0, Some 0]),
     (''crash_year'', Num [Some 2023, None, Some 2023, None, Some 2023]),
     (''crash_month'', Num [Some 7, None, Some 7, None, Some 7]),
     (''crash_day_of_week'', Num [Some 5, None, Some 5, None, Some 5])]"

definition blank_fitted :: preprocessing_fitted where
  "blank_fitted =
    \<lparr>num_columns =
       [(''num_units'', Some \<lparr>num_statistic = 5 / 2, scaler_mean = 5 / 2, scaler_scale = 1\<rparr>),
        (''lane_cnt'', None),
        (''injuries_total'', Some \<lparr>num_statistic = 0, scaler_mean = 1 / 5, scaler_scale = 2 / 5\<rparr>),
        (''crash_year'', Some \<lparr>num_statistic = 2023, scaler_mean = 2023, scaler_scale = 1\<rparr>),
        (''crash_month'', Some \<lparr>num_statistic = 7, scaler_mean = 7, scaler_scale = 1\<rparr>),
        (''crash_day_of_week'', Some \<lparr>num_statistic = 5, scaler_mean = 5, scaler_scale = 1\<rparr>)],
     cat_columns =
       [(''weather_condition'', Some \<lparr>cat_statistic = ''RAIN'', onehot_categories = [''CLEAR'', ''RAIN'', ''SNOW'']\<rparr>)]\<rparr>"

definition blank_prepared :: matrix where
  "blank_prepared =
    [(''pipeline-1__num_units'', [- (3 / 2), 0, 1 / 2, - (1 / 2), 3 / 2]),
     (''pipeline-1__injuries_total'', [- (1 / 2), - (1 / 2), 2, - (1 / 2), - (1 / 2)]),
     (''pipeline-1__crash_year'', [0, 0, 0, 0, 0]),
     (''pipeline-1__crash_month'', [0, 0, 0, 0, 0]),
     (''pipeline-1__crash_day_of_week'', [0, 0, 0, 0, 0]),
     (''pipeline-2__weather_condition_CLEAR'', [0, 1, 0, 0, 0]),
     (''pipeline-2__weather_condition_RAIN'', [1, 0, 1, 1, 0]),
     (''pipeline-2__weather_condition_SNOW'', [0, 0, 0, 0, 1])]"

definition offsets_csv :: frame where
  "offsets_csv =
    [(''crash_date'', Obj [Some ''2023-07-29 13:00:00+01:00'', Some ''unknown'', Some ''2023-07-29 13:00:00+02:00'']),
     (''num_units'', Num [Some 1, Some 2, Some 3]),
     (''injuries_total'', Num [Some 0, Some 1, Some 0]),
     (''injuries_fatal'', Num [Some 0, Some 0, Some 0]),
     (''injuries_incapacitating'', Num [Some 0, Some 0, Some 0]),
     (''injuries_non_incapacitating'', Num [Some 0, Some 1, Some 0]),
     (''injuries_reported_not_evident'', Num [Some 0, Some 0, Some 0])]"

section \<open>Properties\<close>

subsection \<open>What a completed cell has done\<close>

lemma bind_res_Inr_iff: "bind_res m f = Inr y \<longleftrightarrow> (\<exists>v. m = Inr v \<and> f v = Inr y)"
  by (cases m) (simp_all add: bind_res_def)

lemma bind_res_cong_Inr: "(\<And>v. m = Inr v \<Longrightarrow> f v = f' v) \<Longrightarrow> bind_res m f = bind_res m f'"
  by (cases m) (simp_all add: bind_res_def)

lemma check_random_state_seeded [simp]: "check_random_state (Some n) g = RandomState n"
  by (simp add: check_random_state_def)

lemma fit_Inr:
  "fit lib g pl X y s = Inr ps \<longleftrightarrow>
     (\<exists>pf. pipeline_fit lib g (final_estimator pl) X y = Inr pf \<and>
        ps = (pl\<lparr>fitted_predictor := Some (snd pf)\<rparr>,
              s\<lparr>preprocessing := Some (fst pf),
                trace := trace s @ [Fit (final_estimator pl) X y (snd pf)]\<rparr>))"
  by (auto simp: fit_def bind_res_Inr_iff)

lemma predict_Inr:
  "predict pl X s = Inr ys \<longleftrightarrow>
     (\<exists>p f zs. preprocessing s = Some p \<and> fitted_predictor pl = Some f \<and>
        pipeline_predict (p, f) X = Inr zs \<and>
        ys = (zs, s\<lparr>trace := trace s @ [Predict (final_estimator pl) X]\<rparr>))"
  by (auto simp: predict_def bind_res_Inr_iff split: option.splits)

lemma rmse_Inr:
  "rmse y p s = Inr vs \<longleftrightarrow>
     (\<exists>v. root_mean_squared_error y p = Inr v \<and> vs = (v, s\<lparr>trace := trace s @ [Rmse y p]\<rparr>))"
  by (auto simp: rmse_def bind_res_Inr_iff)

lemma cell16_Inr:
  "cell16 lib g s = Inr s' \<longleftrightarrow>
     (\<exists>pf ys v.
        pipeline_fit lib g (DecisionTreeRegressor (Some 42)) (accidentsTrain s) (accidentsTrain_labels s) = Inr pf \<and>
        pipeline_predict pf (accidentsTrain s) = Inr ys \<and>
        root_mean_squared_error (accidentsTrain_labels s) ys = Inr v \<and>
        s' = s\<lparr>preprocessing := Some (fst pf),
               predictions := ys,
               tree_reg := Some \<lparr>final_estimator = DecisionTreeRegressor (Some 42), fitted_predictor = Some (snd pf)\<rparr>,
               tree_rmse := v,
               trace := trace s @
                 [Fit (DecisionTreeRegressor (Some 42)) (accidentsTrain s) (accidentsTrain_labels s) (snd pf),
                  Predict (DecisionTreeRegressor (Some 42)) (accidentsTrain s),
                  Rmse (accidentsTrain_labels s) ys]\<rparr>)"
  by (auto simp: cell16_def bind_res_Inr_iff fit_Inr predict_Inr rmse_Inr Let_def)

lemma run_append: "run (cs @ ds) s = bind_res (run cs s) (run ds)"
  by (induction cs arbitrary: s) (auto simp: bind_res_def split: sum.splits)

lemma cell13_Inr:
  "cell13 lib g s = Inr s' \<longleftrightarrow>
     (\<exists>pf ys.
        pipeline_fit lib g LinearRegression (accidentsTrain s) (accidentsTrain_labels s) = Inr pf \<and>
        pipeline_predict pf (accidentsTrain s) = Inr ys \<and>
        s' = s\<lparr>preprocessing := Some (fst pf),
               lin_reg := Some \<lparr>final_estimator = LinearRegression, fitted_predictor = Some (snd pf)\<rparr>,
               predictions := ys,
               trace := trace s @
                 [Fit LinearRegression (accidentsTrain s) (accidentsTrain_labels s) (snd pf),
                  Predict LinearRegression (accidentsTrain s)]\<rparr>)"
  by (auto simp: cell13_def bind_res_Inr_iff fit_Inr predict_Inr Let_def)

lemma cell14_Inr:
  "cell14 s = Inr s' \<longleftrightarrow>
     (\<exists>v. root_mean_squared_error (accidentsTrain_labels s) (predictions s) = Inr v \<and>
        s' = s\<lparr>lin_rmse := v,
               trace := trace s @ [Rmse (accidentsTrain_labels s) (predictions s)]\<rparr>)"
  by (auto simp: cell14_def bind_res_Inr_iff rmse_Inr)

lemma cell17_Inr:
  "cell17 lib g s = Inr s' \<longleftrightarrow>
     (\<exists>pl scores calls. tree_reg s = Some pl \<and>
        cross_val_score lib g (final_estimator pl) (accidentsTrain s) (accidentsTrain_labels s) 10
          = Inr (scores, calls) \<and>
        s' = s\<lparr>tree_rmses := map (map_option uminus) scores,
               trace := trace s @
                 CrossValScore (final_estimator pl) (accidentsTrain s) (accidentsTrain_labels s) 10
                   # calls\<rparr>)"
  by (auto simp: cell17_def bind_res_Inr_iff split: option.splits)

lemma cell19_Inr:
  "cell19 lib g s = Inr s' \<longleftrightarrow>
     (\<exists>pf ys v.
        pipeline_fit lib g (RandomForestRegressor (Some 42)) (accidentsTrain s) (accidentsTrain_labels s) = Inr pf \<and>
        pipeline_predict pf (accidentsTrain s) = Inr ys \<and>
        root_mean_squared_error (accidentsTrain_labels s) ys = Inr v \<and>
        s' = s\<lparr>preprocessing := Some (fst pf),
               full_pipeline := Some \<lparr>final_estimator = RandomForestRegressor (Some 42), fitted_predictor = Some (snd pf)\<rparr>,
               predictions_rf := ys,
               rmse_rf := v,
               trace := trace s @
                 [Fit (RandomForestRegressor (Some 42)) (accidentsTrain s) (accidentsTrain_labels s) (snd pf),
                  Predict (RandomForestRegressor (Some 42)) (accidentsTrain s),
                  Rmse (accidentsTrain_labels s) ys]\<rparr>)"
  by (auto simp: cell19_def bind_res_Inr_iff fit_Inr predict_Inr rmse_Inr Let_def)

lemma cell21_Inr:
  "cell21 s = Inr s' \<longleftrightarrow>
     (\<exists>pl. full_pipeline s = Some pl \<and>
        s' = s\<lparr>disk := (disk s)(''Traffic_Accident_Injury_Predictor_Model.pkl'' :=
                   Some \<lparr>saved_preprocessing = preprocessing s, saved_pipeline = pl\<rparr>),
               trace := trace s @
                 [Dump (final_estimator pl) ''Traffic_Accident_Injury_Predictor_Model.pkl'']\<rparr>)"
  by (auto simp: cell21_def split: option.splits)

lemma cell3_Inr:
  "cell3 lib s = Inr s' \<longleftrightarrow>
     (\<exists>df. date_transformation lib (accidentsData s) = Inr df \<and> s' = s\<lparr>accidentsData := df\<rparr>)"
  by (auto simp: cell3_def bind_res_Inr_iff)

lemma cell8_Inr:
  "cell8 s = Inr s' \<longleftrightarrow>
     (\<exists>p M. preprocessing_fit (accidentsData s) = Inr p \<and>
        preprocessing_transform p (accidentsData s) = Inr M \<and>
        s' = s\<lparr>preprocessing := Some p, prepared_array := (M, sparse_output p)\<rparr>)"
  by (auto simp: cell8_def bind_res_Inr_iff)

lemma cell9_Inr:
  "cell9 s = Inr s' \<longleftrightarrow>
     (snd (prepared_array s) \<and> s' = s\<lparr>accidentsData_prepared := fst (prepared_array s)\<rparr>)"
  by (auto simp: cell9_def)

lemma cell10_Inr:
  "cell10 lib g s = Inr s' \<longleftrightarrow>
     (\<exists>idx X y.
        shuffle_split lib (RandomState 42) (mrows (accidentsData_prepared s)) (1 / 5) = Inr idx \<and>
        drop_columns (take_rows (fst idx) (accidentsData_prepared s)) [''pipeline-1__injuries_total'']
          = Inr X \<and>
        getitem (take_rows (fst idx) (accidentsData_prepared s)) ''pipeline-1__injuries_total''
          = Inr y \<and>
        s' = s\<lparr>train_set := take_rows (fst idx) (accidentsData_prepared s),
               test_set := take_rows (snd idx) (accidentsData_prepared s),
               accidentsTrain := X, accidentsTrain_labels := y\<rparr>)"
  by (auto simp: cell10_def train_test_split_def bind_res_Inr_iff Let_def)

lemma preparation_Inr:
  "run (preparation lib g) s = Inr s' \<longleftrightarrow>
     (\<exists>df p M idx X y.
        date_transformation lib (accidentsData s) = Inr df \<and>
        preprocessing_fit df = Inr p \<and>
        preprocessing_transform p df = Inr M \<and>
        sparse_output p \<and>
        shuffle_split lib (RandomState 42) (mrows M) (1 / 5) = Inr idx \<and>
        drop_columns (take_rows (fst idx) M) [''pipeline-1__injuries_total''] = Inr X \<and>
        getitem (take_rows (fst idx) M) ''pipeline-1__injuries_total'' = Inr y \<and>
        s' = s\<lparr>accidentsData := df, preprocessing := Some p, prepared_array := (M, True),
               accidentsData_prepared := M,
               train_set := take_rows (fst idx) M, test_set := take_rows (snd idx) M,
               accidentsTrain := X, accidentsTrain_labels := y\<rparr>)"
  (is "?L \<longleftrightarrow> ?R")
proof
  assume ?L
  then show ?R
    by (auto simp: preparation_def bind_res_Inr_iff cell3_Inr cell8_Inr cell9_Inr cell10_Inr)
next
  assume ?R
  then show ?L
    by (auto simp: preparation_def bind_res_Inr_iff cell3_Inr cell8_Inr cell9_Inr cell10_Inr)
qed

lemma notebook_Inr:
  "notebook lib g csv = Inr s' \<longleftrightarrow>
     (\<exists>s. run (preparation lib g) (loadData csv) = Inr s \<and> run (training lib g) s = Inr s')"
  by (simp add: notebook_def run_append bind_res_Inr_iff)

lemma prepared_fields:
  assumes "run (preparation lib g) (loadData csv) = Inr s"
  shows "trace s = []" and "disk s = (\<lambda>file. None)"
  using assms by (auto simp: preparation_Inr loadData_def)

subsection \<open>Seeds\<close>

lemma regressor_fit_seeded:
  "r = LinearRegression \<or> r = DecisionTreeRegressor (Some n) \<or> r = RandomForestRegressor (Some n)
   \<Longrightarrow> regressor_fit lib g1 r = regressor_fit lib g2 r"
  by (auto simp: regressor_fit_def fun_eq_iff)

lemma pipeline_fit_seeded:
  "r = LinearRegression \<or> r = DecisionTreeRegressor (Some n) \<or> r = RandomForestRegressor (Some n)
   \<Longrightarrow> pipeline_fit lib g1 r = pipeline_fit lib g2 r"
  unfolding pipeline_fit_def by (simp only: regressor_fit_seeded [of r n lib g1 g2])

lemma cross_val_score_seeded:
  "r = LinearRegression \<or> r = DecisionTreeRegressor (Some n) \<or> r = RandomForestRegressor (Some n)
   \<Longrightarrow> cross_val_score lib g1 r = cross_val_score lib g2 r"
  unfolding cross_val_score_def fit_and_score_def
  by (simp only: pipeline_fit_seeded [of r n lib g1 g2])

lemma cell10_seeded: "cell10 lib g1 = cell10 lib g2"
  by (simp add: fun_eq_iff cell10_def train_test_split_def)

lemma cell13_seeded: "cell13 lib g1 = cell13 lib g2"
  using pipeline_fit_seeded [of LinearRegression 0 lib g1 g2]
  by (simp add: fun_eq_iff cell13_def fit_def)

lemma cell16_seeded: "cell16 lib g1 = cell16 lib g2"
  using pipeline_fit_seeded [of "DecisionTreeRegressor (Some 42)" 42 lib g1 g2]
  by (simp add: fun_eq_iff cell16_def fit_def)

lemma cell19_seeded: "cell19 lib g1 = cell19 lib g2"
  using pipeline_fit_seeded [of "RandomForestRegressor (Some 42)" 42 lib g1 g2]
  by (simp add: fun_eq_iff cell19_def fit_def)

lemma cell17_seeded:
  assumes "tree_reg s = Some pl" "final_estimator pl = DecisionTreeRegressor (Some 42)"
  shows "cell17 lib g1 s = cell17 lib g2 s"
  using assms cross_val_score_seeded [of "DecisionTreeRegressor (Some 42)" 42 lib g1 g2]
  by (simp add: cell17_def)

lemma training_seeded: "run (training lib g1) s = run (training lib g2) s"
proof -
  have tail: "run [cell17 lib g1, cell19 lib g1, cell21] s' = run [cell17 lib g2, cell19 lib g2, cell21] s'"
    if "cell16 lib g2 s0 = Inr s'" for s0 s'
  proof -
    from that obtain f where "tree_reg s' = Some \<lparr>final_estimator = DecisionTreeRegressor (Some 42), fitted_predictor = f\<rparr>"
      by (auto simp: cell16_Inr)
    then have "cell17 lib g1 s' = cell17 lib g2 s'"
      by (intro cell17_seeded) auto
    then show ?thesis
      by (simp add: cell19_seeded [of lib g1 g2])
  qed
  show ?thesis
    unfolding training_def
    apply (simp only: run.simps cell13_seeded [of lib g1 g2])
    apply (rule bind_res_cong_Inr)
    apply (simp only: run.simps)
    apply (rule bind_res_cong_Inr)
    apply (simp only: run.simps cell16_seeded [of lib g1 g2])
    apply (rule bind_res_cong_Inr)
    apply (erule tail)
    done
qed

lemma preparation_seeded: "preparation lib g1 = preparation lib g2"
  by (simp add: preparation_def cell10_seeded [of lib g1 g2])

subsection \<open>The cells as functions of the variables they read\<close>

lemma map_sum_bind_res:
  "map_sum id h (bind_res m f) = bind_res m (\<lambda>v. map_sum id h (f v))"
  by (cases m) (simp_all add: bind_res_def)

lemma cell13_eq:
  "cell13 lib g s =
     bind_res (pipeline_fit lib g LinearRegression (accidentsTrain s) (accidentsTrain_labels s)) (\<lambda>pf.
     bind_res (pipeline_predict pf (accidentsTrain s)) (\<lambda>ys.
     Inr (s\<lparr>preprocessing := Some (fst pf),
            lin_reg := Some \<lparr>final_estimator = LinearRegression, fitted_predictor = Some (snd pf)\<rparr>,
            predictions := ys,
            trace := trace s @
              [Fit LinearRegression (accidentsTrain s) (accidentsTrain_labels s) (snd pf),
               Predict LinearRegression (accidentsTrain s)]\<rparr>)))"
  by (simp add: cell13_def fit_def predict_def Let_def bind_res_def split: sum.splits)

lemma cell14_eq:
  "cell14 s =
     bind_res (root_mean_squared_error (accidentsTrain_labels s) (predictions s)) (\<lambda>v.
     Inr (s\<lparr>lin_rmse := v,
            trace := trace s @ [Rmse (accidentsTrain_labels s) (predictions s)]\<rparr>))"
  by (simp add: cell14_def rmse_def bind_res_def split: sum.splits)

lemma cell16_eq:
  "cell16 lib g s =
     bind_res (pipeline_fit lib g (DecisionTreeRegressor (Some 42)) (accidentsTrain s) (accidentsTrain_labels s)) (\<lambda>pf.
     bind_res (pipeline_predict pf (accidentsTrain s)) (\<lambda>ys.
     bind_res (root_mean_squared_error (accidentsTrain_labels s) ys) (\<lambda>v.
     Inr (s\<lparr>preprocessing := Some (fst pf),
            predictions := ys,
            tree_reg := Some \<lparr>final_estimator = DecisionTreeRegressor (Some 42), fitted_predictor = Some (snd pf)\<rparr>,
            tree_rmse := v,
            trace := trace s @
              [Fit (DecisionTreeRegressor (Some 42)) (accidentsTrain s) (accidentsTrain_labels s) (snd pf),
               Predict (DecisionTreeRegressor (Some 42)) (accidentsTrain s),
               Rmse (accidentsTrain_labels s) ys]\<rparr>))))"
  by (simp add: cell16_def fit_def predict_def rmse_def Let_def bind_res_def split: sum.splits)

lemma cell19_eq:
  "cell19 lib g s =
     bind_res (pipeline_fit lib g (RandomForestRegressor (Some 42)) (accidentsTrain s) (accidentsTrain_labels s)) (\<lambda>pf.
     bind_res (pipeline_predict pf (accidentsTrain s)) (\<lambda>ys.
     bind_res (root_mean_squared_error (accidentsTrain_labels s) ys) (\<lambda>v.
     Inr (s\<lparr>preprocessing := Some (fst pf),
            full_pipeline := Some \<lparr>final_estimator = RandomForestRegressor (Some 42), fitted_predictor = Some (snd pf)\<rparr>,
            predictions_rf := ys,
            rmse_rf := v,
            trace := trace s @
              [Fit (RandomForestRegressor (Some 42)) (accidentsTrain s) (accidentsTrain_labels s) (snd pf),
               Predict (RandomForestRegressor (Some 42)) (accidentsTrain s),
               Rmse (accidentsTrain_labels s) ys]\<rparr>))))"
  by (simp add: cell19_def fit_def predict_def rmse_def Let_def bind_res_def split: sum.splits)

text \<open>The training cells read none of the variables that hold rows of the test split:
  the loaded data, the prepared data and the two halves of the split.\<close>

lemma cell13_frame:
  "cell13 lib g (s\<lparr>accidentsData := d, prepared_array := a, accidentsData_prepared := p,
          train_set := tr, test_set := t\<rparr>) =
     map_sum id (\<lambda>s'. s'\<lparr>accidentsData := d, prepared_array := a, accidentsData_prepared := p,
          train_set := tr, test_set := t\<rparr>) (cell13 lib g s)"
  by (simp add: cell13_eq bind_res_def split: sum.splits)

lemma cell14_frame:
  "cell14 (s\<lparr>accidentsData := d, prepared_array := a, accidentsData_prepared := p,
          train_set := tr, test_set := t\<rparr>) =
     map_sum id (\<lambda>s'. s'\<lparr>accidentsData := d, prepared_array := a, accidentsData_prepared := p,
          train_set := tr, test_set := t\<rparr>) (cell14 s)"
  by (simp add: cell14_eq bind_res_def split: sum.splits)

lemma cell16_frame:
  "cell16 lib g (s\<lparr>accidentsData := d, prepared_array := a, accidentsData_prepared := p,
          train_set := tr, test_set := t\<rparr>) =
     map_sum id (\<lambda>s'. s'\<lparr>accidentsData := d, prepared_array := a, accidentsData_prepared := p,
          train_set := tr, test_set := t\<rparr>) (cell16 lib g s)"
  by (simp add: cell16_eq bind_res_def split: sum.splits)

lemma cell17_frame:
  "cell17 lib g (s\<lparr>accidentsData := d, prepared_array := a, accidentsData_prepared := p,
          train_set := tr, test_set := t\<rparr>) =
     map_sum id (\<lambda>s'. s'\<lparr>accidentsData := d, prepared_array := a, accidentsData_prepared := p,
          train_set := tr, test_set := t\<rparr>) (cell17 lib g s)"
  by (simp add: cell17_def bind_res_def split: sum.splits option.splits prod.splits)

lemma cell19_frame:
  "cell19 lib g (s\<lparr>accidentsData := d, prepared_array := a, accidentsData_prepared := p,
          train_set := tr, test_set := t\<rparr>) =
     map_sum id (\<lambda>s'. s'\<lparr>accidentsData := d, prepared_array := a, accidentsData_prepared := p,
          train_set := tr, test_set := t\<rparr>) (cell19 lib g s)"
  by (simp add: cell19_eq bind_res_def split: sum.splits)

lemma cell21_frame:
  "cell21 (s\<lparr>accidentsData := d, prepared_array := a, accidentsData_prepared := p,
          train_set := tr, test_set := t\<rparr>) =
     map_sum id (\<lambda>s'. s'\<lparr>accidentsData := d, prepared_array := a, accidentsData_prepared := p,
          train_set := tr, test_set := t\<rparr>) (cell21 s)"
  by (simp add: cell21_def split: option.splits)

lemma run_frame:
  assumes "\<And>c s. c \<in> set cs \<Longrightarrow> c (u s) = map_sum id u (c s)"
  shows "run cs (u s) = map_sum id u (run cs s)"
  using assms
proof (induction cs arbitrary: s)
  case Nil
  then show ?case by simp
next
  case (Cons c cs)
  show ?case
  proof (cases "c s")
    case (Inl e)
    with Cons.prems [of c s] show ?thesis by (simp add: bind_res_def)
  next
    case (Inr s1)
    with Cons.prems [of c s] Cons.IH [of s1] Cons.prems show ?thesis
      by (simp add: bind_res_def)
  qed
qed

text \<open>The first of them replaces the fitted state of \<open>preprocessing\<close> before anything
  reads it.\<close>

lemma cell13_refits: "cell13 lib g (s\<lparr>preprocessing := q\<rparr>) = cell13 lib g s"
  by (simp add: cell13_eq)

lemma training_refits: "run (training lib g) (s\<lparr>preprocessing := q\<rparr>) = run (training lib g) s"
  by (simp add: training_def cell13_refits)


subsection \<open>Pipelines on an all-numeric frame\<close>

lemma traverse_Inr_map:
  "(\<And>x. x \<in> set xs \<Longrightarrow> f x = Inr (h x)) \<Longrightarrow> traverse f xs = Inr (map h xs)"
  by (induction xs) (simp_all add: bind_res_def)

lemma observed_map_Some [simp]: "observed (map Some xs) = xs"
  by (induction xs) (simp_all add: observed_def List.map_filter_def)

lemma impute_map_Some [simp]: "impute fill (map Some xs) = xs"
  by (induction xs) (simp_all add: impute_def)

lemma impute_map_Some_comp [simp]: "impute fill (map (Some \<circ> f) xs) = map f xs"
  by (induction xs) (simp_all add: impute_def)

lemma select_number_as_frame: "select_number (as_frame X) = map (\<lambda>(n, xs). (n, map Some xs)) X"
  by (induction X) (auto simp: select_number_def as_frame_def List.map_filter_def)

lemma select_object_as_frame: "select_object (as_frame X) = []"
  by (induction X) (auto simp: select_object_def as_frame_def List.map_filter_def)

lemma num_pipeline_fit_map_Some:
  "xs \<noteq> [] \<Longrightarrow> num_pipeline_fit (map Some xs) =
     Some \<lparr>num_statistic = median xs, scaler_mean = fst (scaler_fit xs),
           scaler_scale = snd (scaler_fit xs)\<rparr>"
  by (simp add: num_pipeline_fit_def imputer_fit_def Let_def)

text \<open>Names that occur once.\<close>

lemma unique_name_count:
  "distinct (map fst df) \<Longrightarrow> n \<in> fst ` set df \<Longrightarrow> length (filter (\<lambda>(m, c). m = n) df) = 1"
  by (induction df) (auto simp: filter_empty_conv intro: rev_image_eqI)

lemma distinct_unique_columns:
  assumes "distinct (map fst df)" and "set names \<subseteq> fst ` set df"
  shows "unique_columns df names"
  unfolding unique_columns_def list_all_iff
proof
  fix n assume "n \<in> set names"
  with assms(2) have "n \<in> fst ` set df" by auto
  then show "length (filter (\<lambda>(m, c). m = n) df) = 1"
    by (rule unique_name_count [OF assms(1)])
qed

lemma unique_columns_distinct:
  "unique_columns df (map fst df) \<Longrightarrow> distinct (map fst df)"
proof (induction df)
  case Nil
  then show ?case by simp
next
  case (Cons a df)
  obtain m c where a: "a = (m, c)" by (cases a)
  from Cons.prems have one: "length (filter (\<lambda>(m', c'). m' = m) ((m, c) # df)) = 1"
    by (simp add: unique_columns_def a)
  then have new: "m \<notin> fst ` set df"
    by (force simp: filter_empty_conv)
  from Cons.prems have every:
    "\<forall>n\<in>set (map fst (a # df)). length (filter (\<lambda>(m', c'). m' = n) (a # df)) = 1"
    by (simp only: unique_columns_def list_all_iff)
  have "unique_columns df (map fst df)"
    unfolding unique_columns_def list_all_iff
  proof
    fix n assume n: "n \<in> set (map fst df)"
    with new have "m \<noteq> n" by auto
    moreover from n have "n \<in> set (map fst (a # df))" by simp
    with every have "length (filter (\<lambda>(m', c'). m' = n) (a # df)) = 1" by (rule bspec)
    ultimately show "length (filter (\<lambda>(m', c'). m' = n) df) = 1" by (simp add: a)
  qed
  from Cons.IH [OF this] new show ?case by (simp add: a)
qed

lemma unique_map_of:
  "length (filter (\<lambda>(m, c'). m = n) df) = 1 \<Longrightarrow> (n, c) \<in> set df \<Longrightarrow> map_of df n = Some c"
  by (induction df) (auto simp: filter_empty_conv split: if_splits)

lemma names_as_frame [simp]: "map fst (as_frame X) = map fst X"
  by (simp add: as_frame_def case_prod_unfold comp_def)

text \<open>Fitting and transforming.\<close>

lemma preprocessing_fit_as_frame:
  assumes "X \<noteq> []" and "distinct (map fst X)" and "\<And>n xs. (n, xs) \<in> set X \<Longrightarrow> xs \<noteq> []"
  shows "preprocessing_fit (as_frame X) = Inr (numeric_fitted X)"
proof -
  have nums: "map (\<lambda>(n, xs). (n, num_pipeline_fit xs)) (select_number (as_frame X)) =
      num_columns (numeric_fitted X)"
    using assms(3) by (auto simp: select_number_as_frame numeric_fitted_def num_pipeline_fit_map_Some)
  have kept: "\<not> all_removed (num_columns (numeric_fitted X))"
    using assms(1) by (cases X) (auto simp: all_removed_def numeric_fitted_def)
  have none: "\<not> all_removed ([] :: (string \<times> cat_fitted option) list)"
    by (simp add: all_removed_def)
  have names: "map fst (num_columns (numeric_fitted X)) = map fst X"
    by (simp add: numeric_fitted_def case_prod_unfold comp_def)
  have "fst ` set (as_frame X) = fst ` set X"
    by (force simp: as_frame_def)
  then have unique: "unique_columns (as_frame X) (map fst X)"
    using assms(2) by (intro distinct_unique_columns) simp_all
  have eq: "\<lparr>num_columns = num_columns (numeric_fitted X), cat_columns = []\<rparr> = numeric_fitted X"
    by (simp add: numeric_fitted_def)
  show ?thesis
    unfolding preprocessing_fit_def nums select_object_as_frame
    by (simp add: Let_def kept none names unique eq)
qed

lemma preprocessing_fit_distinct:
  assumes "preprocessing_fit (as_frame X) = Inr p"
  shows "distinct (map fst X)"
proof -
  have "map fst (map (\<lambda>(n, xs). (n, num_pipeline_fit xs)) (select_number (as_frame X))) = map fst X"
    by (simp add: select_number_as_frame case_prod_unfold comp_def)
  with assms have "unique_columns (as_frame X) (map fst (as_frame X))"
    by (simp add: preprocessing_fit_def select_object_as_frame Let_def split: if_splits)
  from unique_columns_distinct [OF this] show ?thesis by simp
qed

lemma preprocessing_fit_no_rows:
  assumes "X \<noteq> []" and "\<And>n xs. (n, xs) \<in> set X \<Longrightarrow> xs = []"
  shows "preprocessing_fit (as_frame X) = Inl ValueError"
proof -
  have "num_pipeline_fit (map Some xs) = None" if "(n, xs) \<in> set X" for n xs
    using assms(2) [OF that]
    by (simp add: num_pipeline_fit_def imputer_fit_def observed_def List.map_filter_simps)
  then have "list_all (\<lambda>(n, f). f = None)
      (map (\<lambda>(n, xs). (n, num_pipeline_fit xs)) (select_number (as_frame X)))"
    by (auto simp: select_number_as_frame list_all_iff)
  moreover have "map (\<lambda>(n, xs). (n, num_pipeline_fit xs)) (select_number (as_frame X)) \<noteq> []"
    using assms(1) by (simp add: select_number_as_frame)
  ultimately show ?thesis
    by (simp add: preprocessing_fit_def all_removed_def Let_def)
qed

lemma map_of_as_frame:
  assumes "distinct (map fst X)" "(n, xs) \<in> set X"
  shows "map_of (as_frame X) n = Some (Num (map Some xs))"
proof -
  have "distinct (map fst (as_frame X))"
    using assms(1) by simp
  moreover have "(n, Num (map Some xs)) \<in> set (as_frame X)"
    using assms(2) by (force simp: as_frame_def)
  ultimately show ?thesis by simp
qed

text \<open>The column transformer fitted on the rows \<open>train\<close> of \<open>X\<close>, applied to its rows
  \<open>test\<close>.\<close>

lemma take_rows_mem:
  "(n, xs) \<in> set X \<Longrightarrow> (n, map (\<lambda>i. xs ! i) idx) \<in> set (take_rows idx X)"
  by (force simp: take_rows_def)

lemma names_take_rows [simp]: "map fst (take_rows idx X) = map fst X"
  by (simp add: take_rows_def case_prod_unfold comp_def)

lemma preprocessing_transform_rows:
  assumes "distinct (map fst X)"
  shows "preprocessing_transform (numeric_fitted (take_rows train X)) (as_frame (take_rows test X)) =
     Inr (map (\<lambda>(n, xs). (''pipeline-1__'' @ n,
            scaler_transform (scaler_fit (map (\<lambda>i. xs ! i) train)) (map (\<lambda>i. xs ! i) test))) X)"
proof -
  let ?F = "\<lambda>xs. Some \<lparr>num_statistic = median (map (\<lambda>i. xs ! i) train),
      scaler_mean = fst (scaler_fit (map (\<lambda>i. xs ! i) train)),
      scaler_scale = snd (scaler_fit (map (\<lambda>i. xs ! i) train))\<rparr>"
  let ?T = "as_frame (take_rows test X)"
  let ?look = "\<lambda>n. the (map_option (\<lambda>c. case c of Num xs \<Rightarrow> xs) (map_of ?T n))"
  have d: "distinct (map fst (take_rows test X))" using assms by simp
  have look: "map_of ?T n = Some (Num (map Some (map (\<lambda>i. xs ! i) test)))" if "(n, xs) \<in> set X" for n xs
    by (rule map_of_as_frame [OF d take_rows_mem [OF that]])
  have cols: "num_columns (numeric_fitted (take_rows train X)) = map (\<lambda>(n, xs). (n, ?F xs)) X"
    by (simp add: numeric_fitted_def take_rows_def case_prod_unfold comp_def)
  have "traverse (\<lambda>(n, f). bind_res (num_input ?T n) (\<lambda>xs. Inr (n, f, xs)))
          (map (\<lambda>(n, xs). (n, ?F xs)) X) =
        Inr (map (\<lambda>nf. case nf of (n, f) \<Rightarrow> (n, f, ?look n)) (map (\<lambda>(n, xs). (n, ?F xs)) X))"
    by (rule traverse_Inr_map) (auto simp: num_input_def bind_res_def look)
  also have "map (\<lambda>nf. case nf of (n, f) \<Rightarrow> (n, f, ?look n)) (map (\<lambda>(n, xs). (n, ?F xs)) X)
      = map (\<lambda>(n, xs). (n, ?F xs, map Some (map (\<lambda>i. xs ! i) test))) X"
    by (auto simp: look)
  finally have nums: "traverse (\<lambda>(n, f). bind_res (num_input ?T n) (\<lambda>xs. Inr (n, f, xs)))
      (num_columns (numeric_fitted (take_rows train X))) =
      Inr (map (\<lambda>(n, xs). (n, ?F xs, map Some (map (\<lambda>i. xs ! i) test))) X)"
    by (simp only: cols)
  have out: "concat (map num_output (map (\<lambda>(n, xs). (n, ?F xs, map Some (map (\<lambda>i. xs ! i) test))) X))
      = map (\<lambda>(n, xs). (''pipeline-1__'' @ n,
            scaler_transform (scaler_fit (map (\<lambda>i. xs ! i) train)) (map (\<lambda>i. xs ! i) test))) X"
    by (induction X) (auto simp: num_output_def num_pipeline_transform_def)
  have cats: "cat_columns (numeric_fitted (take_rows train X)) = []"
    by (simp add: numeric_fitted_def)
  show ?thesis
    unfolding preprocessing_transform_def nums cats
    by (simp only: bind_res_def sum.case traverse.simps list.map concat.simps append_Nil2 out)
qed

lemma standardized_take_rows:
  "standardized (take_rows idx X) =
     map (\<lambda>(n, xs). (''pipeline-1__'' @ n,
            scaler_transform (scaler_fit (map (\<lambda>i. xs ! i) idx)) (map (\<lambda>i. xs ! i) idx))) X"
  by (simp add: standardized_def take_rows_def case_prod_unfold comp_def)

lemma take_rows_props:
  "take_rows idx X = [] \<longleftrightarrow> X = []"
  "(nm, xs) \<in> set (take_rows idx X) \<Longrightarrow> length xs = length idx"
  "X \<noteq> [] \<Longrightarrow> mrows (take_rows idx X) = length idx"
  by (auto simp: take_rows_def mrows_def case_prod_unfold comp_def split: list.splits)

lemma fit_rows_take_rows: "X \<noteq> [] \<Longrightarrow> fit_rows (take_rows idx X) = holdout_rows idx idx X"
  by (simp add: fit_rows_def holdout_rows_def standardized_take_rows take_rows_props)

lemma preprocessing_transform_as_frame:
  assumes "distinct (map fst X)" and "\<And>n xs. (n, xs) \<in> set X \<Longrightarrow> length xs = m"
  shows "preprocessing_transform (numeric_fitted X) (as_frame X) = Inr (standardized X)"
proof -
  have "map (\<lambda>i. xs ! i) [0..<m] = xs" if "(n, xs) \<in> set X" for n xs
    using assms(2) [OF that] map_nth [of xs] by simp
  then have "take_rows [0..<m] X = X"
    unfolding take_rows_def by (intro map_idI) auto
  with preprocessing_transform_rows [OF assms(1), of "[0..<m]" "[0..<m]"]
    standardized_take_rows [of "[0..<m]" X]
  show ?thesis by simp
qed

lemma pipeline_fit_numeric:
  assumes "X \<noteq> []" "distinct (map fst X)" "\<And>n xs. (n, xs) \<in> set X \<Longrightarrow> length xs = m"
    "0 < m" "length y = m"
  shows "pipeline_fit lib g r X y = Inr (numeric_fitted X, regressor_fit lib g r (fit_rows X) y)"
proof -
  have "standardized X \<noteq> []" using assms(1) by (simp add: standardized_def)
  moreover have rows: "mrows X = m"
    using assms(1,3) by (cases X) (auto simp: mrows_def)
  moreover have "xs \<noteq> []" if "(n, xs) \<in> set X" for n xs
    using assms(3) [OF that] assms(4) by auto
  ultimately show ?thesis
    using assms(5)
    by (simp add: pipeline_fit_def preprocessing_fit_as_frame [OF assms(1,2)]
        preprocessing_transform_as_frame [OF assms(2,3)] bind_res_def fit_rows_def)
qed

lemma pipeline_fit_Inr:
  assumes "pipeline_fit lib g r X y = Inr pf" and "\<And>n xs. (n, xs) \<in> set X \<Longrightarrow> length xs = m"
  shows "X \<noteq> []" and "distinct (map fst X)" and "0 < m" and "length y = m"
    and "pf = (numeric_fitted X, regressor_fit lib g r (fit_rows X) y)"
proof -
  from assms(1) obtain p Xt where p: "preprocessing_fit (as_frame X) = Inr p"
    and Xt: "preprocessing_transform p (as_frame X) = Inr Xt"
    and ok: "Xt \<noteq> []" "length y = mrows X"
    by (auto simp: pipeline_fit_def bind_res_Inr_iff split: if_splits)
  show d: "distinct (map fst X)" by (rule preprocessing_fit_distinct [OF p])
  show ne: "X \<noteq> []"
  proof
    assume "X = []"
    with p Xt have "Xt = []"
      by (auto simp: preprocessing_fit_def preprocessing_transform_def as_frame_def
          select_number_def select_object_def List.map_filter_simps bind_res_def Let_def
          split: if_splits)
    with ok(1) show False by simp
  qed
  show m: "0 < m"
  proof (rule ccontr)
    assume "\<not> 0 < m"
    with assms(2) have "xs = []" if "(n, xs) \<in> set X" for n xs
      using that by fastforce
    from preprocessing_fit_no_rows [OF ne this] p show False by simp
  qed
  have "mrows X = m" using ne assms(2) by (cases X) (auto simp: mrows_def)
  with ok(2) show len: "length y = m" by simp
  have "pipeline_fit lib g r X y = Inr (numeric_fitted X, regressor_fit lib g r (fit_rows X) y)"
    by (rule pipeline_fit_numeric [OF ne d assms(2) m len])
  with assms(1) show "pf = (numeric_fitted X, regressor_fit lib g r (fit_rows X) y)" by simp
qed

lemma pipeline_predict_numeric:
  assumes "distinct (map fst X)" and "\<And>n xs. (n, xs) \<in> set X \<Longrightarrow> length xs = m"
  shows "pipeline_predict (numeric_fitted X, f) X = Inr (map f (fit_rows X))"
  by (simp add: pipeline_predict_def preprocessing_transform_as_frame [OF assms] bind_res_def
      fit_rows_def)

lemma pipeline_predict_rows:
  assumes "X \<noteq> []" and "distinct (map fst X)"
  shows "pipeline_predict (numeric_fitted (take_rows train X), f) (take_rows test X) =
     Inr (map f (holdout_rows train test X))"
  using assms(1)
  by (simp add: pipeline_predict_def preprocessing_transform_rows [OF assms(2)] bind_res_def
      holdout_rows_def take_rows_props)

lemma root_mean_squared_error_eq:
  "length y_true = length y_pred \<Longrightarrow> y_true \<noteq> [] \<Longrightarrow>
   root_mean_squared_error y_true y_pred = Inr (rms_error y_true y_pred)"
  by (simp add: root_mean_squared_error_def rms_error_def mean_def)

lemma length_rows_of [simp]: "length (rows_of n X) = n"
  by (simp add: rows_of_def)

lemma length_fit_rows [simp]: "length (fit_rows X) = mrows X"
  by (simp add: fit_rows_def)

lemma length_holdout_rows [simp]: "length (holdout_rows train test X) = length test"
  by (simp add: holdout_rows_def)

text \<open>The folds.\<close>

lemma length_kfold [simp]: "length (kfold n k) = k"
  by (simp add: kfold_def)

lemma kfold_parts:
  assumes "2 \<le> k" "k \<le> n" "(train, test) \<in> set (kfold n k)"
  shows "train \<noteq> []" and "test \<noteq> []"
proof -
  define q r where "q = n div k" and "r = n mod k"
  have n: "n = k * q + r" by (simp add: q_def r_def)
  have q: "1 \<le> q" using assms by (simp add: q_def Suc_le_eq div_greater_zero_iff)
  have kq: "2 * q \<le> k * q" using assms(1) by (rule mult_le_mono1)
  from assms(3) obtain i where i: "i < k"
    and train: "train = filter (\<lambda>j. j < i * q + min i r \<or>
        i * q + min i r + q + (if i < r then 1 else 0) \<le> j) [0..<n]"
    and test: "test = [i * q + min i r ..< i * q + min i r + q + (if i < r then 1 else 0)]"
    by (auto simp: kfold_def Let_def q_def r_def)
  from q show "test \<noteq> []" by (simp add: test)
  have "\<exists>j<n. j < i * q + min i r \<or> i * q + min i r + q + (if i < r then 1 else 0) \<le> j"
  proof (cases "i = 0")
    case True
    have "q + (if 0 < r then 1 else 0) \<le> n - 1"
    proof (cases "0 < r")
      case True
      with n q kq have "q + 1 \<le> n - 1" by linarith
      with True show ?thesis by simp
    next
      case False
      with n q kq have "q \<le> n - 1" by linarith
      with False show ?thesis by simp
    qed
    moreover have "n - 1 < n" using assms by simp
    ultimately show ?thesis using True by auto
  next
    case False
    then have "1 \<le> i" by simp
    then have "q \<le> i * q" by simp
    with q have "0 < i * q + min i r" by linarith
    moreover have "0 < n" using assms by simp
    ultimately show ?thesis by blast
  qed
  then show "train \<noteq> []"
    by (auto simp: train filter_empty_conv)
qed

text \<open>One fold of the cross-validation, and all of them.\<close>

lemma fit_and_score_numeric:
  assumes "X \<noteq> []" and "distinct (map fst X)" and "train \<noteq> []" and "test \<noteq> []"
  shows "fit_and_score lib g r X y (train, test) =
     \<lparr>fold_fitted = True,
      fold_score = Some (- rms_error (map (\<lambda>i. y ! i) test)
        (map (regressor_fit lib g r (fit_rows (take_rows train X)) (map (\<lambda>i. y ! i) train))
           (holdout_rows train test X))),
      fold_calls =
        [Fit r (take_rows train X) (map (\<lambda>i. y ! i) train)
           (regressor_fit lib g r (fit_rows (take_rows train X)) (map (\<lambda>i. y ! i) train)),
         Predict r (take_rows test X),
         Rmse (map (\<lambda>i. y ! i) test)
           (map (regressor_fit lib g r (fit_rows (take_rows train X)) (map (\<lambda>i. y ! i) train))
              (holdout_rows train test X))]\<rparr>"
proof -
  let ?f = "regressor_fit lib g r (fit_rows (take_rows train X)) (map (\<lambda>i. y ! i) train)"
  have fit: "pipeline_fit lib g r (take_rows train X) (map (\<lambda>i. y ! i) train) =
      Inr (numeric_fitted (take_rows train X), ?f)"
  proof (rule pipeline_fit_numeric)
    show "take_rows train X \<noteq> []" using assms(1) by (simp add: take_rows_props)
    show "distinct (map fst (take_rows train X))" using assms(2) by simp
    show "length xs = length train" if "(n, xs) \<in> set (take_rows train X)" for n xs
      using take_rows_props(2) [OF that] .
    show "0 < length train" using assms(3) by simp
    show "length (map (\<lambda>i. y ! i) train) = length train" by simp
  qed
  have pred: "pipeline_predict (numeric_fitted (take_rows train X), ?f) (take_rows test X) =
      Inr (map ?f (holdout_rows train test X))"
    by (rule pipeline_predict_rows [OF assms(1,2)])
  have score: "root_mean_squared_error (map (\<lambda>i. y ! i) test) (map ?f (holdout_rows train test X)) =
      Inr (rms_error (map (\<lambda>i. y ! i) test) (map ?f (holdout_rows train test X)))"
    using assms(4) by (intro root_mean_squared_error_eq) simp_all
  show ?thesis
    by (simp add: fit_and_score_def Let_def fit pred score)
qed

lemma cross_val_score_numeric:
  assumes "X \<noteq> []" and "distinct (map fst X)" and "length y = mrows X" and "2 \<le> cv"
    and "cv \<le> mrows X"
  shows "cross_val_score lib g r X y cv =
     Inr (map (\<lambda>(train, test). Some (- rms_error (map (\<lambda>i. y ! i) test)
            (map (regressor_fit lib g r (fit_rows (take_rows train X)) (map (\<lambda>i. y ! i) train))
               (holdout_rows train test X)))) (kfold (mrows X) cv),
          concat (map (\<lambda>(train, test).
            [Fit r (take_rows train X) (map (\<lambda>i. y ! i) train)
               (regressor_fit lib g r (fit_rows (take_rows train X)) (map (\<lambda>i. y ! i) train)),
             Predict r (take_rows test X),
             Rmse (map (\<lambda>i. y ! i) test)
               (map (regressor_fit lib g r (fit_rows (take_rows train X)) (map (\<lambda>i. y ! i) train))
                  (holdout_rows train test X))]) (kfold (mrows X) cv)))"
proof -
  let ?K = "kfold (mrows X) cv"
  let ?F = "\<lambda>(train, test).
     \<lparr>fold_fitted = True,
      fold_score = Some (- rms_error (map (\<lambda>i. y ! i) test)
        (map (regressor_fit lib g r (fit_rows (take_rows train X)) (map (\<lambda>i. y ! i) train))
           (holdout_rows train test X))),
      fold_calls =
        [Fit r (take_rows train X) (map (\<lambda>i. y ! i) train)
           (regressor_fit lib g r (fit_rows (take_rows train X)) (map (\<lambda>i. y ! i) train)),
         Predict r (take_rows test X),
         Rmse (map (\<lambda>i. y ! i) test)
           (map (regressor_fit lib g r (fit_rows (take_rows train X)) (map (\<lambda>i. y ! i) train))
              (holdout_rows train test X))]\<rparr>"
  have results: "map (fit_and_score lib g r X y) ?K = map ?F ?K"
  proof (rule map_cong [OF refl])
    fix part assume part: "part \<in> set ?K"
    obtain train test where pt: "part = (train, test)" by (cases part)
    from kfold_parts [OF assms(4,5) part [unfolded pt]]
    show "fit_and_score lib g r X y part = ?F part"
      unfolding pt prod.case by (rule fit_and_score_numeric [OF assms(1,2)])
  qed
  have "?K \<noteq> []" using assms(4) by (metis length_kfold list.size(3) not_numeral_le_zero)
  then have some: "\<not> list_all (\<lambda>res. \<not> fold_fitted res) (map ?F ?K)"
    by (cases ?K) (auto simp: case_prod_unfold)
  show ?thesis
    unfolding cross_val_score_def Let_def results
    using assms(3,4,5) some
    by (simp add: case_prod_unfold comp_def)
qed

text \<open>Standardised rows stay distinct.\<close>

lemma variance_nonneg: "0 \<le> variance xs"
  by (auto simp: variance_def mean_def intro!: divide_nonneg_nonneg sum_list_nonneg)

lemma scaler_scale_nonzero: "snd (scaler_fit xs) \<noteq> 0"
proof (cases "is_constant_feature (variance xs) (mean xs) (length xs)")
  case True
  then show ?thesis by (simp add: scaler_fit_def)
next
  case False
  have "0 \<le> real (length xs) * eps * variance xs + (real (length xs) * mean xs * eps)\<^sup>2"
    using variance_nonneg [of xs] by (simp add: eps_def)
  with False have "0 < variance xs" by (simp add: is_constant_feature_def)
  with False show ?thesis by (simp add: scaler_fit_def std_def)
qed

lemma standardized_row:
  assumes "\<And>nm xs. (nm, xs) \<in> set X \<Longrightarrow> i < length xs"
  shows "map (\<lambda>(name, xs). xs ! i) (standardized X) =
         map (\<lambda>(name, xs). (xs ! i - fst (scaler_fit xs)) / snd (scaler_fit xs)) X"
  using assms by (auto simp: standardized_def scaler_transform_def)

lemma distinct_rows_standardized:
  assumes "distinct (rows_of n X)" and "\<And>nm xs. (nm, xs) \<in> set X \<Longrightarrow> n \<le> length xs"
  shows "distinct (rows_of n (standardized X))"
proof -
  have inj: "inj_on (\<lambda>i. map (\<lambda>(name, xs). xs ! i) X) {0..<n}"
    using assms(1) by (simp add: rows_of_def distinct_map)
  have "inj_on (\<lambda>i. map (\<lambda>(name, xs). xs ! i) (standardized X)) {0..<n}"
  proof (rule inj_onI)
    fix i j
    assume i: "i \<in> {0..<n}" and j: "j \<in> {0..<n}"
      and eq: "map (\<lambda>(name, xs). xs ! i) (standardized X) = map (\<lambda>(name, xs). xs ! j) (standardized X)"
    have "map (\<lambda>(name, xs). (xs ! i - fst (scaler_fit xs)) / snd (scaler_fit xs)) X =
          map (\<lambda>(name, xs). (xs ! j - fst (scaler_fit xs)) / snd (scaler_fit xs)) X"
      using eq i j assms(2) by (subst (asm) (1 2) standardized_row) fastforce+
    then have "map (\<lambda>(name, xs). xs ! i) X = map (\<lambda>(name, xs). xs ! j) X"
      by (auto simp: scaler_scale_nonzero)
    with inj i j show "i = j" by (auto dest: inj_onD)
  qed
  then show ?thesis by (simp add: rows_of_def distinct_map)
qed

lemma memoriser_recalls:
  assumes "distinct R" "length R = length y"
  shows "map (memoriser R y) R = y"
proof (rule nth_equalityI)
  show "length (map (memoriser R y) R) = length y" using assms(2) by simp
next
  fix i assume "i < length (map (memoriser R y) R)"
  then have i: "i < length R" by simp
  have "map_of (zip R y) (R ! i) = Some (y ! i)"
    using assms i by (simp add: map_of_zip_nth)
  then show "map (memoriser R y) R ! i = y ! i"
    using i by (simp add: memoriser_def)
qed

lemma rms_error_exact: "rms_error y y = 0"
proof -
  have "map (\<lambda>(t, p). (t - p)\<^sup>2) (zip y y) = map (\<lambda>t. 0) y"
    by (induction y) auto
  moreover have "sum_list (map (\<lambda>t. 0::real) y) = 0"
    by (induction y) auto
  ultimately show ?thesis by (simp add: rms_error_def)
qed

subsection \<open>The training cells\<close>

lemma mrows_uniform:
  "X \<noteq> [] \<Longrightarrow> (\<And>n xs. (n, xs) \<in> set X \<Longrightarrow> length xs = m) \<Longrightarrow> mrows X = m"
  by (cases X) (auto simp: mrows_def)

lemma regressor_fit_simps:
  "regressor_fit lib g LinearRegression = linear_fit lib"
  "regressor_fit lib g (DecisionTreeRegressor (Some n)) = tree_fit lib (RandomState n)"
  "regressor_fit lib g (RandomForestRegressor (Some n)) = forest_fit lib (RandomState n)"
  by (simp_all add: regressor_fit_def fun_eq_iff)

lemma cross_val_score_tree:
  assumes "X \<noteq> []" and "distinct (map fst X)" and "length y = mrows X" and "10 \<le> mrows X"
  shows "cross_val_score lib g (DecisionTreeRegressor (Some 42)) X y 10 =
     Inr (map (\<lambda>part. Some (- holdout_rmse (tree_fit lib (RandomState 42)) X y part)) (kfold (length y) 10),
          concat (map (fold_calls_of lib X y) (kfold (length y) 10)))"
proof -
  have "cross_val_score lib g (DecisionTreeRegressor (Some 42)) X y 10 = Inr
     (map (\<lambda>(train, test). Some (- rms_error (map (\<lambda>i. y ! i) test)
            (map (regressor_fit lib g (DecisionTreeRegressor (Some 42)) (fit_rows (take_rows train X)) (map (\<lambda>i. y ! i) train))
               (holdout_rows train test X)))) (kfold (mrows X) 10),
          concat (map (\<lambda>(train, test).
            [Fit (DecisionTreeRegressor (Some 42)) (take_rows train X) (map (\<lambda>i. y ! i) train)
               (regressor_fit lib g (DecisionTreeRegressor (Some 42)) (fit_rows (take_rows train X)) (map (\<lambda>i. y ! i) train)),
             Predict (DecisionTreeRegressor (Some 42)) (take_rows test X),
             Rmse (map (\<lambda>i. y ! i) test)
               (map (regressor_fit lib g (DecisionTreeRegressor (Some 42)) (fit_rows (take_rows train X)) (map (\<lambda>i. y ! i) train))
                  (holdout_rows train test X))]) (kfold (mrows X) 10)))"
    using assms by (intro cross_val_score_numeric) simp_all
  then show ?thesis
    by (simp add: regressor_fit_simps holdout_rmse_def fold_calls_of_def [abs_def] Let_def case_prod_unfold
        assms(3))
qed

lemma cross_val_score_few_rows:
  "mrows X < cv \<Longrightarrow> cross_val_score lib g r X y cv = Inl ValueError"
  by (simp add: cross_val_score_def)

lemma training_eq:
  assumes "accidentsTrain s \<noteq> []" and "distinct (map fst (accidentsTrain s))"
    and "\<And>n xs. (n, xs) \<in> set (accidentsTrain s) \<Longrightarrow> length xs = m"
    and "0 < m" and "length (accidentsTrain_labels s) = m"
  shows "run (training lib g) s = (if 10 \<le> m then Inr (training_outcome lib s) else Inl ValueError)"
proof -
  let ?X = "accidentsTrain s" and ?y = "accidentsTrain_labels s"
  have rows: "mrows ?X = m" by (rule mrows_uniform [OF assms(1,3)])
  have fit: "pipeline_fit lib g r ?X ?y =
      Inr (numeric_fitted ?X, regressor_fit lib g r (fit_rows ?X) ?y)" for r
    by (rule pipeline_fit_numeric [OF assms])
  have pred: "pipeline_predict (numeric_fitted ?X, f) ?X = Inr (map f (fit_rows ?X))" for f
    by (rule pipeline_predict_numeric [OF assms(2,3)])
  have score: "root_mean_squared_error ?y (map f (fit_rows ?X)) =
      Inr (rms_error ?y (map f (fit_rows ?X)))" for f
    using assms(4,5) rows by (intro root_mean_squared_error_eq) auto
  show ?thesis
  proof (cases "10 \<le> m")
    case True
    have cv: "cross_val_score lib g (DecisionTreeRegressor (Some 42)) ?X ?y 10 =
       Inr (map (\<lambda>part. Some (- holdout_rmse (tree_fit lib (RandomState 42)) ?X ?y part)) (kfold (length ?y) 10),
          concat (map (fold_calls_of lib ?X ?y) (kfold (length ?y) 10)))"
      using True rows assms by (intro cross_val_score_tree) simp_all
    show ?thesis
      using True
      by (simp add: training_def cell13_eq cell14_eq cell16_eq cell17_def cell19_eq cell21_def
          fit pred score cv bind_res_def regressor_fit_simps training_outcome_def Let_def
          model_file_def comp_def)
  next
    case False
    then have cv: "cross_val_score lib g (DecisionTreeRegressor (Some 42)) ?X ?y 10 = Inl ValueError"
      using rows by (intro cross_val_score_few_rows) simp
    show ?thesis
      using False
      by (simp add: training_def cell13_eq cell14_eq cell16_eq cell17_def
          fit pred score cv bind_res_def)
  qed
qed

lemma drop_columns_mem:
  "drop_columns df names = Inr X \<Longrightarrow> c \<in> set X \<Longrightarrow> c \<in> set df"
  by (auto simp: drop_columns_def split: if_splits)

lemma getitem_mem: "getitem df n = Inr c \<Longrightarrow> (n, c) \<in> set df"
  by (auto simp: getitem_def split: option.splits dest: map_of_SomeD)

lemma preparation_shape:
  assumes "run (preparation lib g) s = Inr s0"
  shows "\<exists>m. (\<forall>n xs. (n, xs) \<in> set (accidentsTrain s0) \<longrightarrow> length xs = m) \<and>
             length (accidentsTrain_labels s0) = m"
proof -
  from assms obtain M idx X y where
    X: "drop_columns (take_rows (fst idx) M) [''pipeline-1__injuries_total''] = Inr X"
    and y: "getitem (take_rows (fst idx) M) ''pipeline-1__injuries_total'' = Inr y"
    and s0: "accidentsTrain s0 = X" "accidentsTrain_labels s0 = y"
    by (auto simp: preparation_Inr)
  have "length xs = length (fst idx)" if "(n, xs) \<in> set X" for n xs
    using drop_columns_mem [OF X that] by (rule take_rows_props(2))
  moreover have "length y = length (fst idx)"
    using getitem_mem [OF y] by (rule take_rows_props(2))
  ultimately show ?thesis unfolding s0 by blast
qed

lemma training_Inr:
  assumes "run (training lib g) s = Inr s'"
    and "\<And>n xs. (n, xs) \<in> set (accidentsTrain s) \<Longrightarrow> length xs = m"
  shows "s' = training_outcome lib s" and "accidentsTrain s \<noteq> []"
    and "distinct (map fst (accidentsTrain s))" and "10 \<le> m"
    and "length (accidentsTrain_labels s) = m"
proof -
  from assms(1) obtain s1 where "cell13 lib g s = Inr s1"
    by (auto simp: training_def bind_res_Inr_iff)
  then obtain pf where
    pf: "pipeline_fit lib g LinearRegression (accidentsTrain s) (accidentsTrain_labels s) = Inr pf"
    by (auto simp: cell13_Inr)
  have shape: "accidentsTrain s \<noteq> []" "distinct (map fst (accidentsTrain s))" "0 < m"
    "length (accidentsTrain_labels s) = m"
    using pipeline_fit_Inr(1-4) [where m = m, OF pf] assms(2) by blast+
  then show "accidentsTrain s \<noteq> []" "distinct (map fst (accidentsTrain s))"
    "length (accidentsTrain_labels s) = m"
    by simp_all
  have "run (training lib g) s = (if 10 \<le> m then Inr (training_outcome lib s) else Inl ValueError)"
    using shape assms(2) by (intro training_eq) simp_all
  with assms(1) show "s' = training_outcome lib s" "10 \<le> m"
    by (auto split: if_splits)
qed

lemma training_outcome_frame [simp]:
  "accidentsTrain (training_outcome lib s) = accidentsTrain s"
  "accidentsTrain_labels (training_outcome lib s) = accidentsTrain_labels s"
  by (simp_all add: training_outcome_def Let_def)

lemma notebook_completed:
  assumes "notebook lib g csv = Inr s"
  shows "\<exists>s0 m. run (preparation lib g) (loadData csv) = Inr s0 \<and> s = training_outcome lib s0 \<and>
           trace s0 = [] \<and> disk s0 = (\<lambda>file. None) \<and>
           accidentsTrain s0 \<noteq> [] \<and> distinct (map fst (accidentsTrain s0)) \<and>
           (\<forall>n xs. (n, xs) \<in> set (accidentsTrain s0) \<longrightarrow> length xs = m) \<and>
           length (accidentsTrain_labels s0) = m \<and> 10 \<le> m"
proof -
  from assms obtain s0 where prep: "run (preparation lib g) (loadData csv) = Inr s0"
    and train: "run (training lib g) s0 = Inr s"
    by (auto simp: notebook_Inr)
  from preparation_shape [OF prep] obtain m where
    m: "\<And>n xs. (n, xs) \<in> set (accidentsTrain s0) \<Longrightarrow> length xs = m"
    by blast
  have "s = training_outcome lib s0 \<and> accidentsTrain s0 \<noteq> [] \<and>
      distinct (map fst (accidentsTrain s0)) \<and> 10 \<le> m \<and> length (accidentsTrain_labels s0) = m"
    using training_Inr [where m = m and s = s0, OF train] m by blast
  with prepared_fields [OF prep] prep m show ?thesis
    by blast
qed

text \<open>The results of a completed run, in terms of its training features and labels.\<close>

lemma notebook_results:
  assumes "notebook lib g csv = Inr s"
  shows "training_outcome lib (s\<lparr>trace := [], disk := (\<lambda>file. None)\<rparr>) = s"
    and "accidentsTrain s \<noteq> []" and "distinct (map fst (accidentsTrain s))"
    and "10 \<le> length (accidentsTrain_labels s)"
    and "(n, xs) \<in> set (accidentsTrain s) \<Longrightarrow> length xs = length (accidentsTrain_labels s)"
proof -
  from notebook_completed [OF assms] obtain s0 m where
    s: "s = training_outcome lib s0" and s0: "trace s0 = []" "disk s0 = (\<lambda>file. None)"
    and shape: "accidentsTrain s0 \<noteq> []" "distinct (map fst (accidentsTrain s0))"
      "\<And>n xs. (n, xs) \<in> set (accidentsTrain s0) \<Longrightarrow> length xs = m"
      "length (accidentsTrain_labels s0) = m" "10 \<le> m"
    by blast
  show "training_outcome lib (s\<lparr>trace := [], disk := (\<lambda>file. None)\<rparr>) = s"
    unfolding s using s0 by (simp add: training_outcome_def Let_def)
  from shape show "accidentsTrain s \<noteq> []" "distinct (map fst (accidentsTrain s))"
    "10 \<le> length (accidentsTrain_labels s)"
    by (simp_all add: s)
  show "length xs = length (accidentsTrain_labels s)" if "(n, xs) \<in> set (accidentsTrain s)"
    using that shape(3,4) by (simp add: s)
qed

subsection \<open>Evaluating the examples\<close>

lemmas frame_defs = bind_res_def getitem_def setitem_def drop_columns_def dt_field_def
  example_library_def example_to_datetime_def example_date_def observed_def
  List.map_filter_simps Let_def
lemmas prep_defs = select_number_def select_object_def List.map_filter_def all_removed_def
  num_pipeline_fit_def cat_pipeline_fit_def imputer_fit_def observed_def impute_def
  scaler_fit_def is_constant_feature_def eps_def unique_columns_def
  mean_def variance_def median_def most_frequent_def onehot_fit_def
  preprocessing_fit_def preprocessing_transform_def num_input_def obj_input_def num_output_def
  cat_output_def num_pipeline_transform_def cat_pipeline_transform_def scaler_transform_def
  onehot_transform_def

lemma replicate_13: "replicate 13 x = [x, x, x, x, x, x, x, x, x, x, x, x, x]"
  by (simp add: eval_nat_numeral)

lemma std_injuries: "std [0, 1, 0, 0, 1, 0, 0, 0, 1, 0, 0, 1, 0] = 6 / 13"
  unfolding std_def by (rule real_sqrt_unique) (simp_all add: variance_def mean_def power2_eq_square)

lemma example_cell3: "date_transformation example_library example_csv = Inr example_dated"
  by (simp add: date_transformation_def frame_defs example_csv_def example_library_def
      example_dated_def replicate_13)

lemma example_fit: "preprocessing_fit example_dated = Inr example_fitted"
  by (simp add: example_dated_def example_fitted_def prep_defs Let_def std_injuries
      power2_eq_square replicate_13)

lemma example_transform: "preprocessing_transform example_fitted example_dated = Inr example_prepared"
  by (simp add: example_dated_def example_fitted_def example_prepared_def prep_defs bind_res_def
      replicate_13)

lemma example_sparse: "sparse_output example_fitted"
  by (simp add: sparse_output_def kept_def n_categories_def example_fitted_def)

lemma example_split:
  "shuffle_split example_library g (mrows example_prepared) (1 / 5) =
     Inr ([9, 8, 7, 6, 5, 4, 3, 2, 1, 0], [12, 11, 10])"
  by (simp add: example_library_def mrows_def example_prepared_def Let_def upt_rec)

lemma example_features:
  "drop_columns (take_rows [9, 8, 7, 6, 5, 4, 3, 2, 1, 0] example_prepared)
     [''pipeline-1__injuries_total''] = Inr example_train"
  by (simp add: drop_columns_def take_rows_def example_prepared_def example_train_def)

lemma example_target:
  "getitem (take_rows [9, 8, 7, 6, 5, 4, 3, 2, 1, 0] example_prepared)
     ''pipeline-1__injuries_total'' = Inr example_labels"
  by (simp add: getitem_def take_rows_def example_prepared_def example_labels_def)


subsection \<open>The example run\<close>

lemma loadData_accidentsData: "accidentsData (loadData csv) = csv"
  by (simp add: loadData_def)

lemma example_preparation:
  "run (preparation example_library g) (loadData example_csv) =
     Inr ((loadData example_csv)
       \<lparr>accidentsData := example_dated, preprocessing := Some example_fitted,
        prepared_array := (example_prepared, True),
        accidentsData_prepared := example_prepared,
        train_set := take_rows [9, 8, 7, 6, 5, 4, 3, 2, 1, 0] example_prepared,
        test_set := take_rows [12, 11, 10] example_prepared,
        accidentsTrain := example_train, accidentsTrain_labels := example_labels\<rparr>)"
  unfolding preparation_Inr
  apply (rule exI [of _ example_dated])
  apply (rule exI [of _ example_fitted])
  apply (rule exI [of _ example_prepared])
  apply (rule exI [of _ "([9, 8, 7, 6, 5, 4, 3, 2, 1, 0], [12, 11, 10])"])
  apply (rule exI [of _ example_train])
  apply (rule exI [of _ example_labels])
  apply (simp only: fst_conv snd_conv example_cell3 example_fit example_transform
      example_sparse example_split example_features example_target loadData_accidentsData
      simp_thms)
  done

lemma example_train_shape:
  "example_train \<noteq> []" "distinct (map fst example_train)"
  "(n, xs) \<in> set example_train \<Longrightarrow> length xs = 10"
  "mrows example_train = 10" "length example_labels = 10"
  by (auto simp: example_train_def example_labels_def mrows_def)

lemma example_rows_distinct: "distinct (rows_of 10 (standardized example_train))"
proof (rule distinct_rows_standardized)
  show "distinct (rows_of 10 example_train)"
    by (simp add: rows_of_def example_train_def upt_rec)
  show "10 \<le> length xs" if "(nm, xs) \<in> set example_train" for nm xs
    using example_train_shape(3) [OF that] by simp
qed

lemma example_mean_labels: "mean example_labels = - (1 / 60)"
  by (simp add: mean_def example_labels_def)

lemma example_rmse_mean:
  "rms_error example_labels (map (\<lambda>row. - (1 / 60)) (rows_of 10 X)) = sqrt (1183 / 1200)"
  by (simp add: rms_error_def rows_of_def example_labels_def upt_rec power2_eq_square)

lemma example_run:
  "notebook example_library g example_csv =
     Inr (training_outcome example_library ((loadData example_csv)
       \<lparr>accidentsData := example_dated, preprocessing := Some example_fitted,
        prepared_array := (example_prepared, True),
        accidentsData_prepared := example_prepared,
        train_set := take_rows [9, 8, 7, 6, 5, 4, 3, 2, 1, 0] example_prepared,
        test_set := take_rows [12, 11, 10] example_prepared,
        accidentsTrain := example_train, accidentsTrain_labels := example_labels\<rparr>))"
proof -
  let ?s = "(loadData example_csv)
       \<lparr>accidentsData := example_dated, preprocessing := Some example_fitted,
        prepared_array := (example_prepared, True),
        accidentsData_prepared := example_prepared,
        train_set := take_rows [9, 8, 7, 6, 5, 4, 3, 2, 1, 0] example_prepared,
        test_set := take_rows [12, 11, 10] example_prepared,
        accidentsTrain := example_train, accidentsTrain_labels := example_labels\<rparr>"
  have "run (training example_library g) ?s =
      (if 10 \<le> (10::nat) then Inr (training_outcome example_library ?s) else Inl ValueError)"
    by (rule training_eq) (simp_all add: example_train_shape)
  then show ?thesis
    by (simp add: notebook_def run_append example_preparation bind_res_def)
qed

lemma example_learners:
  "linear_fit example_library = (\<lambda>X y row. mean y)"
  "tree_fit example_library = (\<lambda>g. memoriser)"
  "forest_fit example_library = (\<lambda>g X y row. mean y)"
  by (simp_all add: example_library_def)

lemma example_outcome_eq:
  "example_outcome = training_outcome example_library ((loadData example_csv)
       \<lparr>accidentsData := example_dated, preprocessing := Some example_fitted,
        prepared_array := (example_prepared, True),
        accidentsData_prepared := example_prepared,
        train_set := take_rows [9, 8, 7, 6, 5, 4, 3, 2, 1, 0] example_prepared,
        test_set := take_rows [12, 11, 10] example_prepared,
        accidentsTrain := example_train, accidentsTrain_labels := example_labels\<rparr>)"
  by (simp add: example_outcome_def example_run)

lemma example_outcome:
  "notebook example_library (RandomState 0) example_csv = Inr example_outcome"
  "tree_rmse example_outcome = 0"
  "rmse_rf example_outcome = sqrt (1183 / 1200)"
  "accidentsTrain_labels example_outcome = example_labels"
  "accidentsTrain example_outcome = example_train"
  "lin_rmse example_outcome = sqrt (1183 / 1200)"
proof -
  let ?R = "fit_rows example_train"
  have R: "?R = rows_of 10 (standardized example_train)"
    by (simp add: fit_rows_def example_train_shape)
  have tree: "map (memoriser ?R example_labels) ?R = example_labels"
    unfolding R
    using memoriser_recalls [OF example_rows_distinct, of example_labels] example_train_shape(5)
    by simp
  have mean: "rms_error example_labels (map (\<lambda>row. mean example_labels) ?R) = sqrt (1183 / 1200)"
    unfolding R example_mean_labels by (rule example_rmse_mean)
  show "notebook example_library (RandomState 0) example_csv = Inr example_outcome"
    by (simp add: example_outcome_eq example_run)
  show "tree_rmse example_outcome = 0"
    unfolding example_outcome_eq
    by (simp add: training_outcome_def Let_def example_learners tree rms_error_exact)
  show "rmse_rf example_outcome = sqrt (1183 / 1200)"
    unfolding example_outcome_eq
    by (simp add: training_outcome_def Let_def example_learners mean)
  show "lin_rmse example_outcome = sqrt (1183 / 1200)"
    unfolding example_outcome_eq
    by (simp add: training_outcome_def Let_def example_learners mean)
  show "accidentsTrain_labels example_outcome = example_labels"
    "accidentsTrain example_outcome = example_train"
    unfolding example_outcome_eq by simp_all
qed

subsection \<open>The results of a completed run\<close>






lemma completed_models:
  assumes "notebook lib g csv = Inr s"
  shows "lin_reg s = Some \<lparr>final_estimator = LinearRegression, fitted_predictor =
           Some (linear_fit lib (fit_rows (accidentsTrain s)) (accidentsTrain_labels s))\<rparr>"
    and "tree_reg s = Some \<lparr>final_estimator = DecisionTreeRegressor (Some 42), fitted_predictor =
           Some (tree_fit lib (RandomState 42) (fit_rows (accidentsTrain s)) (accidentsTrain_labels s))\<rparr>"
    and "full_pipeline s = Some \<lparr>final_estimator = RandomForestRegressor (Some 42), fitted_predictor =
           Some (forest_fit lib (RandomState 42) (fit_rows (accidentsTrain s)) (accidentsTrain_labels s))\<rparr>"
    and "disk s = (\<lambda>file. None)(model_file :=
           Some \<lparr>saved_preprocessing = preprocessing s,
                 saved_pipeline = \<lparr>final_estimator = RandomForestRegressor (Some 42), fitted_predictor =
                   Some (forest_fit lib (RandomState 42) (fit_rows (accidentsTrain s))
                     (accidentsTrain_labels s))\<rparr>\<rparr>)"
proof -
  from notebook_completed [OF assms] obtain s0 where
    s: "s = training_outcome lib s0" "disk s0 = (\<lambda>file. None)" by blast
  show "lin_reg s = Some \<lparr>final_estimator = LinearRegression, fitted_predictor =
           Some (linear_fit lib (fit_rows (accidentsTrain s)) (accidentsTrain_labels s))\<rparr>"
    "tree_reg s = Some \<lparr>final_estimator = DecisionTreeRegressor (Some 42), fitted_predictor =
           Some (tree_fit lib (RandomState 42) (fit_rows (accidentsTrain s)) (accidentsTrain_labels s))\<rparr>"
    "full_pipeline s = Some \<lparr>final_estimator = RandomForestRegressor (Some 42), fitted_predictor =
           Some (forest_fit lib (RandomState 42) (fit_rows (accidentsTrain s)) (accidentsTrain_labels s))\<rparr>"
    "disk s = (\<lambda>file. None)(model_file :=
           Some \<lparr>saved_preprocessing = preprocessing s,
                 saved_pipeline = \<lparr>final_estimator = RandomForestRegressor (Some 42), fitted_predictor =
                   Some (forest_fit lib (RandomState 42) (fit_rows (accidentsTrain s))
                     (accidentsTrain_labels s))\<rparr>\<rparr>)"
    by (simp_all add: s training_outcome_def Let_def)
qed




subsection \<open>C1: which pipeline is written to disk\<close>

text \<open>
  Claim C1, as amended. The pipeline written to \<^verbatim>\<open>Traffic_Accident_Injury_Predictor_Model.pkl\<close>
  is \<open>full_pipeline\<close>, the random forest pipeline, together with the fitted state of
  \<open>preprocessing\<close>; it is the only file written. No RMSE value enters the choice.
\<close>

theorem saved_model_is_random_forest:
  assumes "notebook lib g csv = Inr s"
  shows "\<exists>f. full_pipeline s =
           Some \<lparr>final_estimator = RandomForestRegressor (Some 42), fitted_predictor = Some f\<rparr> \<and>
         disk s = (\<lambda>file. None)(model_file :=
           Some \<lparr>saved_preprocessing = preprocessing s,
                 saved_pipeline =
                   \<lparr>final_estimator = RandomForestRegressor (Some 42),
                    fitted_predictor = Some f\<rparr>\<rparr>)"
  using completed_models(3,4) [OF assms] by blast

text \<open>On the example run the theorem applies.\<close>

theorem saved_model_is_random_forest_witness:
  "notebook example_library (RandomState 0) example_csv = Inr example_outcome \<and>
   (\<exists>f. full_pipeline example_outcome =
           Some \<lparr>final_estimator = RandomForestRegressor (Some 42), fitted_predictor = Some f\<rparr> \<and>
         disk example_outcome = (\<lambda>file. None)(model_file :=
           Some \<lparr>saved_preprocessing = preprocessing example_outcome,
                 saved_pipeline =
                   \<lparr>final_estimator = RandomForestRegressor (Some 42),
                    fitted_predictor = Some f\<rparr>\<rparr>))"
  using saved_model_is_random_forest [OF example_outcome(1)] example_outcome(1) by blast

text \<open>
  Claim C1 as stated (the serialized pipeline is the one with the lowest RMSE of the three)
  fails on the example run: the file holds the random forest pipeline, whose RMSE is larger
  than the decision tree's.
\<close>

theorem saved_model_not_lowest_rmse:
  "notebook example_library (RandomState 0) example_csv = Inr example_outcome \<and>
   map_option (\<lambda>m. final_estimator (saved_pipeline m)) (disk example_outcome model_file)
     = Some (RandomForestRegressor (Some 42)) \<and>
   tree_rmse example_outcome < rmse_rf example_outcome"
proof -
  from completed_models(4) [OF example_outcome(1)]
  have "map_option (\<lambda>m. final_estimator (saved_pipeline m)) (disk example_outcome model_file)
     = Some (RandomForestRegressor (Some 42))"
    by simp
  then show ?thesis
    by (simp add: example_outcome)
qed

subsection \<open>C2: which models are cross-validated\<close>




subsection \<open>C7: which models are trained\<close>




subsection \<open>C8: the test split is never read\<close>

text \<open>
  Claim C8. The test split produced by the train/test split is never used afterwards: every
  model fit, prediction and RMSE computation reads the training split only. The rows of the
  test split are held by the variables \<open>test_set\<close>, \<open>accidentsData_prepared\<close> (with
  \<open>prepared_array\<close>) and \<open>accidentsData\<close>, and the fitted state of \<open>preprocessing\<close>
  was computed from them in cell 8. Whatever these variables and \<open>train_set\<close> hold when
  the training cells, cells 13 to 21, start, the cells raise the same error or end with
  the same value in every other variable, the same file written and the same calls made.
  So their outcome is a function of \<open>accidentsTrain\<close> and \<open>accidentsTrain_labels\<close>,
  the features and the labels of the training split; the variables named are left as they
  were, but for \<open>preprocessing\<close>, which the first fit overwrites.
\<close>

theorem test_set_never_read:
  "run (training lib g)
     (s\<lparr>accidentsData := d, preprocessing := q, prepared_array := a,
        accidentsData_prepared := p, train_set := tr, test_set := t\<rparr>) =
   map_sum id
     (\<lambda>s'. s'\<lparr>accidentsData := d, prepared_array := a, accidentsData_prepared := p,
             train_set := tr, test_set := t\<rparr>)
     (run (training lib g) s)"
proof -
  let ?u = "\<lambda>s. s\<lparr>accidentsData := d, prepared_array := a, accidentsData_prepared := p,
             train_set := tr, test_set := t\<rparr>"
  have "run (training lib g) (?u (s\<lparr>preprocessing := q\<rparr>)) =
      map_sum id ?u (run (training lib g) (s\<lparr>preprocessing := q\<rparr>))"
    by (rule run_frame)
      (auto simp: training_def cell13_frame cell14_frame cell16_frame cell17_frame cell19_frame
        cell21_frame)
  moreover have "s\<lparr>accidentsData := d, preprocessing := q, prepared_array := a,
        accidentsData_prepared := p, train_set := tr, test_set := t\<rparr> = ?u (s\<lparr>preprocessing := q\<rparr>)"
    by (rule state.equality) simp_all
  ultimately show ?thesis
    by (simp only: training_refits)
qed

subsection \<open>C9: two runs on the same file give the same results\<close>

text \<open>
  Claim C9. The whole analysis is deterministic: two runs on the same input file give the
  same train/test split, the same fitted decision tree and random forest, and the same RMSE
  values, because every randomised component is given the seed 42. Two runs differ in the
  state of the process-wide random generator only; the complete outcome of the notebook
  (every variable, the file written, or the error raised) does not depend on it.
\<close>

theorem notebook_deterministic: "notebook lib g1 csv = notebook lib g2 csv"
proof -
  have "run (training lib g1) = run (training lib g2)"
    by (rule ext) (rule training_seeded)
  then show ?thesis
    by (simp add: notebook_def run_append preparation_seeded [of lib g1 g2])
qed

subsection \<open>Columns through the column transformer\<close>

lemma preprocessing_fit_Inr:
  assumes "preprocessing_fit df = Inr p"
  shows "num_columns p = map (\<lambda>(n, xs). (n, num_pipeline_fit xs)) (select_number df)"
    and "cat_columns p = map (\<lambda>(n, xs). (n, cat_pipeline_fit xs)) (select_object df)"
    and "unique_columns df (map fst (select_number df) @ map fst (select_object df))"
  using assms
  by (auto simp: preprocessing_fit_def Let_def case_prod_unfold comp_def split: if_splits)

lemma set_select_number: "set (select_number df) = {(n, xs). (n, Num xs) \<in> set df}"
  by (induction df) (auto simp: select_number_def List.map_filter_simps split: column.splits)

lemma set_select_object: "set (select_object df) = {(n, xs). (n, Obj xs) \<in> set df}"
  by (induction df) (auto simp: select_object_def List.map_filter_simps split: column.splits)

text \<open>A column that was fitted is found again by its name.\<close>

lemma fitted_column_found:
  assumes "preprocessing_fit df = Inr p"
  shows "(n, xs) \<in> set (select_number df) \<Longrightarrow> num_input df n = Inr xs"
    and "(n, zs) \<in> set (select_object df) \<Longrightarrow> obj_input df n = Inr zs"
proof -
  note u = preprocessing_fit_Inr(3) [OF assms, unfolded unique_columns_def list_all_iff]
  show "num_input df n = Inr xs" if "(n, xs) \<in> set (select_number df)"
  proof -
    from that have "n \<in> set (map fst (select_number df) @ map fst (select_object df))"
      by force
    with u have "length (filter (\<lambda>(m, c). m = n) df) = 1" by (rule bspec)
    moreover from that have "(n, Num xs) \<in> set df" by (simp add: set_select_number)
    ultimately have "map_of df n = Some (Num xs)" by (rule unique_map_of)
    then show ?thesis by (simp add: num_input_def)
  qed
  show "obj_input df n = Inr zs" if "(n, zs) \<in> set (select_object df)"
  proof -
    from that have "n \<in> set (map fst (select_number df) @ map fst (select_object df))"
      by force
    with u have "length (filter (\<lambda>(m, c). m = n) df) = 1" by (rule bspec)
    moreover from that have "(n, Obj zs) \<in> set df" by (simp add: set_select_object)
    ultimately have "map_of df n = Some (Obj zs)" by (rule unique_map_of)
    then show ?thesis by (simp add: obj_input_def)
  qed
qed

text \<open>Fitting and transforming the same frame: the output, column by column.\<close>

lemma traverse_fitted:
  assumes "\<And>n xs. (n, xs) \<in> set cols \<Longrightarrow> inp n = Inr xs"
  shows "traverse (\<lambda>(n, f). bind_res (inp n) (\<lambda>xs. Inr (n, f, xs)))
           (map (\<lambda>(n, xs). (n, h xs)) cols) =
         Inr (map (\<lambda>(n, xs). (n, h xs, xs)) cols)"
  using assms
proof (induction cols)
  case Nil
  then show ?case by simp
next
  case (Cons c cols)
  obtain n xs where c: "c = (n, xs)" by (cases c)
  have "inp n = Inr xs" using Cons.prems [of n xs] by (simp add: c)
  moreover have "traverse (\<lambda>(n, f). bind_res (inp n) (\<lambda>xs. Inr (n, f, xs)))
           (map (\<lambda>(n, xs). (n, h xs)) cols) =
         Inr (map (\<lambda>(n, xs). (n, h xs, xs)) cols)"
    using Cons.prems by (intro Cons.IH) simp
  ultimately show ?case by (simp add: c bind_res_def)
qed

lemma fit_transform:
  assumes "preprocessing_fit df = Inr p"
  shows "preprocessing_transform p df =
     Inr (concat (map (\<lambda>(n, xs). num_output (n, num_pipeline_fit xs, xs)) (select_number df)) @
          concat (map (\<lambda>(n, xs). cat_output (n, cat_pipeline_fit xs, xs)) (select_object df)))"
proof -
  have nums: "traverse (\<lambda>(n, f). bind_res (num_input df n) (\<lambda>xs. Inr (n, f, xs))) (num_columns p) =
      Inr (map (\<lambda>(n, xs). (n, num_pipeline_fit xs, xs)) (select_number df))"
    unfolding preprocessing_fit_Inr(1) [OF assms]
    by (rule traverse_fitted [where inp = "num_input df" and h = num_pipeline_fit])
      (rule fitted_column_found(1) [OF assms])
  have cats: "traverse (\<lambda>(n, f). bind_res (obj_input df n) (\<lambda>xs. Inr (n, f, xs))) (cat_columns p) =
      Inr (map (\<lambda>(n, xs). (n, cat_pipeline_fit xs, xs)) (select_object df))"
    unfolding preprocessing_fit_Inr(2) [OF assms]
    by (rule traverse_fitted [where inp = "obj_input df" and h = cat_pipeline_fit])
      (rule fitted_column_found(2) [OF assms])
  show ?thesis
    unfolding preprocessing_transform_def nums cats
    by (simp add: bind_res_def comp_def case_prod_unfold)
qed

lemma impute_eq: "impute m xs = map (\<lambda>x. case x of None \<Rightarrow> m | Some v \<Rightarrow> v) xs"
  by (simp add: impute_def)

lemma num_output_fitted:
  "num_output (n, num_pipeline_fit xs, xs) =
     (if observed xs = [] then []
      else [(''pipeline-1__'' @ n,
             scaler_transform (scaler_fit (impute (median (observed xs)) xs))
               (impute (median (observed xs)) xs))])"
  by (simp add: num_output_def num_pipeline_fit_def imputer_fit_def num_pipeline_transform_def
      Let_def)

lemma cat_output_fitted:
  "cat_output (n, cat_pipeline_fit xs, xs) =
     (if observed xs = [] then []
      else map (\<lambda>c. (''pipeline-2__'' @ n @ ''_'' @ c,
                  map (\<lambda>v. if v = c then 1 else 0) (impute (most_frequent (observed xs)) xs)))
             (sort (remdups (impute (most_frequent (observed xs)) xs))))"
  by (simp add: cat_output_def cat_pipeline_fit_def imputer_fit_def cat_pipeline_transform_def
      onehot_transform_def onehot_fit_def zip_map_map zip_same_conv_map)

text \<open>The names of the output columns.\<close>

lemma empty_column_removed:
  assumes "preprocessing_fit df = Inr p" and "preprocessing_transform p df = Inr M"
    and "(n, Num xs) \<in> set df" and "observed xs = []"
  shows "''pipeline-1__'' @ n \<notin> fst ` set M"
proof
  assume "''pipeline-1__'' @ n \<in> fst ` set M"
  then obtain col where col: "(''pipeline-1__'' @ n, col) \<in> set M" by auto
  from assms(2) have M: "M =
      concat (map (\<lambda>(n, xs). num_output (n, num_pipeline_fit xs, xs)) (select_number df)) @
      concat (map (\<lambda>(n, xs). cat_output (n, cat_pipeline_fit xs, xs)) (select_object df))"
    by (simp add: fit_transform [OF assms(1)])
  from col consider
    (num) m ys where "(m, ys) \<in> set (select_number df)"
      "(''pipeline-1__'' @ n, col) \<in> set (num_output (m, num_pipeline_fit ys, ys))"
    | (cat) m zs where "(m, zs) \<in> set (select_object df)"
      "(''pipeline-1__'' @ n, col) \<in> set (cat_output (m, cat_pipeline_fit zs, zs))"
    unfolding M by auto
  then show False
  proof cases
    case num
    from num(2) have m: "m = n" and ys: "observed ys \<noteq> []"
      by (auto simp: num_output_fitted split: if_splits)
    from fitted_column_found(1) [OF assms(1) num(1)] have "num_input df n = Inr ys"
      by (simp add: m)
    moreover have "(n, xs) \<in> set (select_number df)"
      using assms(3) by (simp add: set_select_number)
    from fitted_column_found(1) [OF assms(1) this] have "num_input df n = Inr xs" .
    ultimately have "ys = xs" by simp
    with ys assms(4) show False by simp
  next
    case cat
    then show False
      by (auto simp: cat_output_fitted split: if_splits)
  qed
qed

text \<open>The median and the most frequent value.\<close>

lemma count_list_insort: "count_list (insort x xs) v = count_list (x # xs) v"
  by (induction xs) auto

lemma count_list_sort: "count_list (sort xs) v = count_list xs v"
  by (induction xs) (simp_all add: count_list_insort)

lemma median_middle:
  assumes "ys \<noteq> []"
  shows "\<exists>s. sorted s \<and> (\<forall>v. count_list s v = count_list ys v) \<and>
           median ys = (s ! ((length s - 1) div 2) + s ! (length s div 2)) / 2"
proof -
  have pos: "0 < length ys" using assms by simp
  have odd: "(length ys - Suc 0) div 2 = length ys div 2" if "odd (length ys)"
    using that by (auto elim!: oddE)
  have even: "(length ys - Suc 0) div 2 = length ys div 2 - Suc 0" if "even (length ys)"
    using that pos by (auto elim!: evenE)
  have "median ys =
      (sort ys ! ((length (sort ys) - 1) div 2) + sort ys ! (length (sort ys) div 2)) / 2"
    by (cases "odd (length ys)") (simp_all add: median_def Let_def odd even)
  then show ?thesis
    using count_list_sort [of ys] by (intro exI [of _ "sort ys"]) simp
qed

lemma most_frequent_props:
  assumes "xs \<noteq> []"
  shows "most_frequent xs \<in> set xs"
    and "count_list xs v \<le> count_list xs (most_frequent xs)"
    and "v \<in> set xs \<Longrightarrow> count_list xs v = count_list xs (most_frequent xs) \<Longrightarrow> most_frequent xs \<le> v"
proof -
  define m where "m = Max (count_list xs ` set xs)"
  define S where "S = {v \<in> set xs. count_list xs v = m}"
  have fin: "finite (count_list xs ` set xs)" and ne: "count_list xs ` set xs \<noteq> {}"
    using assms by auto
  from Max_in [OF fin ne] have "S \<noteq> {}" by (auto simp: S_def m_def)
  moreover have finS: "finite S" by (simp add: S_def)
  ultimately have "Min S \<in> S" by (rule Min_in [rotated])
  moreover have mf: "most_frequent xs = Min S"
    by (simp add: most_frequent_def S_def m_def Let_def)
  ultimately have in_S: "most_frequent xs \<in> S" by simp
  then show "most_frequent xs \<in> set xs" by (simp add: S_def)
  from in_S have top: "count_list xs (most_frequent xs) = m" by (simp add: S_def)
  show "count_list xs v \<le> count_list xs (most_frequent xs)"
  proof (cases "v \<in> set xs")
    case True
    then show ?thesis unfolding top m_def by (intro Max_ge) auto
  next
    case False
    then show ?thesis by (simp add: count_list_0_iff)
  qed
  show "most_frequent xs \<le> v"
    if "v \<in> set xs" "count_list xs v = count_list xs (most_frequent xs)"
  proof -
    from that have "v \<in> S" by (simp add: S_def top)
    with finS show ?thesis unfolding mf by (rule Min_le)
  qed
qed

lemma onehot_categories_fitted:
  assumes "cat_pipeline_fit xs = Some f"
  shows "distinct (onehot_categories f)" and "sorted (onehot_categories f)"
    and "set (onehot_categories f) = set (observed xs)"
    and "cat_statistic f \<in> set (observed xs)"
proof -
  from assms have obs: "observed xs \<noteq> []"
    and f: "f = \<lparr>cat_statistic = most_frequent (observed xs),
                onehot_categories = onehot_fit (impute (most_frequent (observed xs)) xs)\<rparr>"
    by (auto simp: cat_pipeline_fit_def imputer_fit_def split: if_splits)
  show "distinct (onehot_categories f)" "sorted (onehot_categories f)"
    by (simp_all add: f onehot_fit_def)
  show fill: "cat_statistic f \<in> set (observed xs)"
    by (simp add: f most_frequent_props(1) [OF obs])
  have "set (impute m xs) = set (observed xs) \<union> (if None \<in> set xs then {m} else {})" for m
    by (induction xs) (auto simp: impute_def observed_def List.map_filter_simps split: option.splits)
  with fill show "set (onehot_categories f) = set (observed xs)"
    by (auto simp: f onehot_fit_def split: if_splits)
qed


lemma num_column_imputed:
  assumes "preprocessing_fit df = Inr p" and "preprocessing_transform p df = Inr M"
    and "(n, Num xs) \<in> set df" and "observed xs \<noteq> []"
  shows "(''pipeline-1__'' @ n,
          scaler_transform (scaler_fit (impute (median (observed xs)) xs))
            (impute (median (observed xs)) xs)) \<in> set M"
proof -
  from assms(2) have M: "M =
      concat (map (\<lambda>(n, xs). num_output (n, num_pipeline_fit xs, xs)) (select_number df)) @
      concat (map (\<lambda>(n, xs). cat_output (n, cat_pipeline_fit xs, xs)) (select_object df))"
    by (simp add: fit_transform [OF assms(1)])
  have "(n, xs) \<in> set (select_number df)"
    using assms(3) by (simp add: set_select_number)
  moreover have "(''pipeline-1__'' @ n,
          scaler_transform (scaler_fit (impute (median (observed xs)) xs))
            (impute (median (observed xs)) xs)) \<in> set (num_output (n, num_pipeline_fit xs, xs))"
    using assms(4) by (simp add: num_output_fitted)
  ultimately show ?thesis unfolding M by force
qed

subsection \<open>The date transformation\<close>

lemma replace_names:
  "map fst (map (\<lambda>(n', c'). if n' = n then (n', c) else (n', c')) df) = map fst df"
  by (induction df) (simp_all add: case_prod_unfold)

lemma map_of_replace:
  "map_of (map (\<lambda>(n', c'). if n' = n then (n', c) else (n', c')) df) m =
     (if m = n then map_option (\<lambda>c'. c) (map_of df m) else map_of df m)"
  by (induction df) (auto simp: case_prod_unfold)

lemma map_of_setitem: "map_of (setitem df n c) m = (if m = n then Some c else map_of df m)"
proof (cases "n \<in> set (map fst df)")
  case True
  then obtain c' where "map_of df n = Some c'"
    by (metis image_set map_of_eq_None_iff not_None_eq)
  with True show ?thesis by (simp add: setitem_def map_of_replace)
next
  case False
  then have "map_of df n = None" by (simp add: map_of_eq_None_iff)
  with False show ?thesis
    by (simp add: setitem_def map_add_def split: option.splits)
qed

lemma names_setitem: "fst ` set (setitem df n c) = insert n (fst ` set df)"
proof (cases "n \<in> set (map fst df)")
  case True
  have "fst ` set (setitem df n c) = set (map fst (setitem df n c))" by simp
  also have "\<dots> = set (map fst df)"
    using True by (simp only: setitem_def if_True replace_names)
  finally show ?thesis using True by auto
next
  case False
  then show ?thesis by (simp add: setitem_def)
qed

lemma distinct_setitem:
  assumes "distinct (map fst df)"
  shows "distinct (map fst (setitem df n c))"
proof (cases "n \<in> set (map fst df)")
  case True
  then have "map fst (setitem df n c) = map fst df"
    by (simp only: setitem_def if_True replace_names)
  with assms show ?thesis by (simp only:)
next
  case False
  with assms show ?thesis by (simp add: setitem_def)
qed

lemma drop_columns_Inr:
  "set names \<subseteq> fst ` set df \<Longrightarrow>
   drop_columns df names = Inr (filter (\<lambda>(n, c). n \<notin> set names) df)"
  by (auto simp: drop_columns_def list_all_iff)

lemma map_of_dropped:
  "m \<notin> set names \<Longrightarrow> map_of (filter (\<lambda>(n, c). n \<notin> set names) df) m = map_of df m"
  by (induction df) (auto simp: case_prod_unfold)

lemma date_transformation_object:
  assumes "map_of csv ''crash_date'' = Some c" and "dt (to_datetime lib c) = Inl AttributeError"
  shows "date_transformation lib csv = Inl AttributeError"
  unfolding date_transformation_def
  using assms by (simp add: getitem_def bind_res_def Let_def map_of_setitem)

lemma date_transformation_Inr:
  assumes "map_of csv ''crash_date'' = Some c"
    and "{''injuries_fatal'', ''injuries_incapacitating'', ''injuries_non_incapacitating'',
          ''injuries_reported_not_evident''} \<subseteq> fst ` set csv"
    and "to_datetime lib c = Datetime ts"
  shows "\<exists>df. date_transformation lib csv = Inr df \<and>
           map_of df ''crash_year'' = Some (dt_field year ts) \<and>
           map_of df ''crash_month'' = Some (dt_field month ts) \<and>
           map_of df ''crash_day_of_week'' = Some (dt_field dayofweek ts) \<and>
           (distinct (map fst csv) \<longrightarrow> distinct (map fst df))"
proof -
  define df1 where "df1 = setitem csv ''crash_date'' (Datetime ts)"
  define df2 where "df2 = setitem df1 ''crash_year'' (dt_field year ts)"
  define df3 where "df3 = setitem df2 ''crash_month'' (dt_field month ts)"
  define df4 where "df4 = setitem df3 ''crash_day_of_week'' (dt_field dayofweek ts)"
  define dropped where "dropped = [''crash_date'', ''injuries_fatal'', ''injuries_incapacitating'',
       ''injuries_non_incapacitating'', ''injuries_reported_not_evident'']"
  have date: "getitem df1 ''crash_date'' = Inr (Datetime ts)"
    "getitem df2 ''crash_date'' = Inr (Datetime ts)"
    "getitem df3 ''crash_date'' = Inr (Datetime ts)"
    by (simp_all add: getitem_def map_of_setitem df1_def df2_def df3_def)
  have "fst ` set df4 = insert ''crash_day_of_week'' (insert ''crash_month''
      (insert ''crash_year'' (insert ''crash_date'' (fst ` set csv))))"
    by (simp only: df4_def df3_def df2_def df1_def names_setitem)
  then have names: "set dropped \<subseteq> fst ` set df4"
    using assms(2) by (simp add: dropped_def subset_iff)
  have run: "date_transformation lib csv = Inr (filter (\<lambda>(n, c). n \<notin> set dropped) df4)"
    unfolding date_transformation_def
    using assms(1,3) date drop_columns_Inr [OF names]
    by (simp add: getitem_def bind_res_def Let_def df1_def [symmetric] df2_def [symmetric]
        df3_def [symmetric] df4_def [symmetric] dropped_def [symmetric])
  have "map_of (filter (\<lambda>(n, c). n \<notin> set dropped) df4) ''crash_year'' = Some (dt_field year ts)"
    "map_of (filter (\<lambda>(n, c). n \<notin> set dropped) df4) ''crash_month'' = Some (dt_field month ts)"
    "map_of (filter (\<lambda>(n, c). n \<notin> set dropped) df4) ''crash_day_of_week''
       = Some (dt_field dayofweek ts)"
    by (subst map_of_dropped; simp add: dropped_def map_of_setitem df4_def df3_def df2_def)+
  moreover have "distinct (map fst (filter (\<lambda>(n, c). n \<notin> set dropped) df4))"
    if "distinct (map fst csv)"
    using that by (simp add: distinct_map_filter distinct_setitem df4_def df3_def df2_def df1_def)
  ultimately show ?thesis using run by blast
qed

lemma observed_map_option: "observed (map (map_option g) ts) = map g (observed ts)"
  by (induction ts) (auto simp: observed_def List.map_filter_simps split: option.splits)

lemma derived_field_output:
  assumes "map_of df name = Some (Num ys)"
    and "preprocessing_fit df = Inr p" and "preprocessing_transform p df = Inr M"
  shows "if observed ys = [] then ''pipeline-1__'' @ name \<notin> fst ` set M
         else (''pipeline-1__'' @ name,
               scaler_transform (scaler_fit (impute (median (observed ys)) ys))
                 (impute (median (observed ys)) ys)) \<in> set M"
proof -
  have col: "(name, Num ys) \<in> set df"
    using map_of_SomeD [OF assms(1)] .
  show ?thesis
  proof (cases "observed ys = []")
    case True
    with empty_column_removed [OF assms(2,3) col] show ?thesis by simp
  next
    case False
    with num_column_imputed [OF assms(2,3) col] show ?thesis by simp
  qed
qed

subsection \<open>The small frames\<close>

lemma std_small:
  "std [0, 0, 1, 0, 0] = 2 / 5"
  "std [1, 5 / 2, 3, 2, 4] = 1"
  unfolding std_def
  by (rule real_sqrt_unique; simp add: variance_def mean_def power2_eq_square)+

lemma gaps_cell3: "date_transformation example_library gaps_csv = Inr gaps_dated"
  by (simp add: date_transformation_def frame_defs gaps_csv_def example_library_def gaps_dated_def)

lemma gaps_fit: "preprocessing_fit gaps_dated = Inr gaps_fitted"
  by (simp add: gaps_dated_def gaps_fitted_def prep_defs Let_def std_small power2_eq_square)

lemma gaps_transform: "preprocessing_transform gaps_fitted gaps_dated = Inr gaps_prepared"
  by (simp add: gaps_dated_def gaps_fitted_def gaps_prepared_def prep_defs bind_res_def)

lemma unparsed_cell3: "date_transformation example_library unparsed_csv = Inr unparsed_dated"
  by (simp add: date_transformation_def frame_defs unparsed_csv_def example_library_def
      unparsed_dated_def)

lemma unparsed_fit: "preprocessing_fit unparsed_dated = Inr unparsed_fitted"
  by (simp add: unparsed_dated_def unparsed_fitted_def prep_defs Let_def std_small power2_eq_square)

lemma unparsed_transform:
  "preprocessing_transform unparsed_fitted unparsed_dated = Inr unparsed_prepared"
  by (simp add: unparsed_dated_def unparsed_fitted_def unparsed_prepared_def prep_defs bind_res_def)

lemma blank_cell3: "date_transformation example_library blank_csv = Inr blank_dated"
  by (simp add: date_transformation_def frame_defs blank_csv_def blank_dated_def)

lemma blank_fit: "preprocessing_fit blank_dated = Inr blank_fitted"
  by (simp add: blank_dated_def blank_fitted_def prep_defs Let_def std_small power2_eq_square)

lemma blank_transform: "preprocessing_transform blank_fitted blank_dated = Inr blank_prepared"
  by (simp add: blank_dated_def blank_fitted_def blank_prepared_def prep_defs bind_res_def)

lemma offsets_cell3: "date_transformation example_library offsets_csv = Inl AttributeError"
  by (simp add: date_transformation_def frame_defs offsets_csv_def)

lemmas eval_defs = imputer_fit_def observed_def List.map_filter_simps median_def impute_def

subsection \<open>C3: the training target\<close>

text \<open>
  Claim C3 says that the training target of every accident of the training split is the
  accident's number of injuries, as the column \<open>injuries_total\<close> of the loaded data
  records it. The code does not do this: cell 10 takes the labels from the column
  \<open>pipeline-1__injuries_total\<close> of the prepared data, which cell 8 has imputed and
  standardised together with the features. On the example run the split puts the accidents
  9, 8, ..., 0 into the training set; they have 0 or 1 injuries, and their training targets
  are \<open>-2/3\<close> and \<open>3/2\<close>.
\<close>

theorem training_target_is_standardized:
  "notebook example_library (RandomState 0) example_csv = Inr example_outcome \<and>
   map_of example_csv ''injuries_total'' =
     Some (Num (map Some [0, 1, 0, 0, 1, 0, 0, 0, 1, 0, 0, 1, 0])) \<and>
   shuffle_split example_library (RandomState 42) 13 (1 / 5) =
     Inr ([9, 8, 7, 6, 5, 4, 3, 2, 1, 0], [12, 11, 10]) \<and>
   accidentsTrain_labels example_outcome =
     [- (2 / 3), 3 / 2, - (2 / 3), - (2 / 3), - (2 / 3), 3 / 2, - (2 / 3), - (2 / 3), 3 / 2, - (2 / 3)]"
proof -
  have "map_of example_csv ''injuries_total'' =
     Some (Num (map Some [0, 1, 0, 0, 1, 0, 0, 0, 1, 0, 0, 1, 0]))"
    by (simp add: example_csv_def)
  moreover have "shuffle_split example_library (RandomState 42) 13 (1 / 5) =
     Inr ([9, 8, 7, 6, 5, 4, 3, 2, 1, 0], [12, 11, 10])"
  proof -
    have m: "mrows example_prepared = 13" by (simp add: mrows_def example_prepared_def)
    show ?thesis unfolding m [symmetric] by (rule example_split)
  qed
  moreover have "accidentsTrain_labels example_outcome =
     [- (2 / 3), 3 / 2, - (2 / 3), - (2 / 3), - (2 / 3), 3 / 2, - (2 / 3), - (2 / 3), 3 / 2, - (2 / 3)]"
    by (simp add: example_outcome(4) example_labels_def)
  ultimately show ?thesis using example_outcome(1) by blast
qed

subsection \<open>C4: imputation by median and by most frequent value\<close>

text \<open>
  Claim C4, as amended. Missing values are imputed by median and mode in every column that
  has an entry present; a column with no entry present is removed. When \<open>preprocessing\<close>
  has been fitted on a frame, it transforms this frame into the following columns, and no
  others. For each numeric column with an entry present, in the order of the frame: the
  scaled column in which every entry present is kept and every missing entry is the median
  of the entries present. Then, for each object column with an entry present: the indicator
  columns of the column in which every missing entry is the most frequent of the entries
  present. The median is the middle of the entries present when they are sorted (the mean
  of the two in the middle when their number is even); the most frequent value is an entry
  present that no value occurs more often than, the smallest such.
\<close>

theorem missing_values_imputed:
  assumes "preprocessing_fit df = Inr p"
  shows "preprocessing_transform p df =
           Inr (concat (map (\<lambda>(n, xs).
                  if observed xs = [] then []
                  else (let fill = median (observed xs);
                            ys = map (\<lambda>x. case x of None \<Rightarrow> fill | Some v \<Rightarrow> v) xs
                        in [(''pipeline-1__'' @ n, scaler_transform (scaler_fit ys) ys)]))
                  (select_number df)) @
                concat (map (\<lambda>(n, xs).
                  if observed xs = [] then []
                  else (let fill = most_frequent (observed xs);
                            ys = map (\<lambda>x. case x of None \<Rightarrow> fill | Some v \<Rightarrow> v) xs
                        in map (\<lambda>c. (''pipeline-2__'' @ n @ ''_'' @ c,
                                     map (\<lambda>v. if v = c then 1 else 0) ys))
                             (sort (remdups ys))))
                  (select_object df))) \<and>
         (\<forall>n xs. (n, Num xs) \<in> set df \<and> observed xs \<noteq> [] \<longrightarrow>
            (\<exists>s. sorted s \<and> (\<forall>v. count_list s v = count_list (observed xs) v) \<and>
                 median (observed xs) = (s ! ((length s - 1) div 2) + s ! (length s div 2)) / 2)) \<and>
         (\<forall>n xs. (n, Obj xs) \<in> set df \<and> observed xs \<noteq> [] \<longrightarrow>
            most_frequent (observed xs) \<in> set (observed xs) \<and>
            (\<forall>v. count_list (observed xs) v \<le> count_list (observed xs) (most_frequent (observed xs))) \<and>
            (\<forall>v\<in>set (observed xs).
                count_list (observed xs) v = count_list (observed xs) (most_frequent (observed xs))
                \<longrightarrow> most_frequent (observed xs) \<le> v))"
proof (intro conjI allI impI)
  show "preprocessing_transform p df =
           Inr (concat (map (\<lambda>(n, xs).
                  if observed xs = [] then []
                  else (let fill = median (observed xs);
                            ys = map (\<lambda>x. case x of None \<Rightarrow> fill | Some v \<Rightarrow> v) xs
                        in [(''pipeline-1__'' @ n, scaler_transform (scaler_fit ys) ys)]))
                  (select_number df)) @
                concat (map (\<lambda>(n, xs).
                  if observed xs = [] then []
                  else (let fill = most_frequent (observed xs);
                            ys = map (\<lambda>x. case x of None \<Rightarrow> fill | Some v \<Rightarrow> v) xs
                        in map (\<lambda>c. (''pipeline-2__'' @ n @ ''_'' @ c,
                                     map (\<lambda>v. if v = c then 1 else 0) ys))
                             (sort (remdups ys))))
                  (select_object df)))"
    unfolding fit_transform [OF assms] num_output_fitted cat_output_fitted Let_def impute_eq ..
next
  fix n xs assume "(n, Num xs) \<in> set df \<and> observed xs \<noteq> []"
  then show "\<exists>s. sorted s \<and> (\<forall>v. count_list s v = count_list (observed xs) v) \<and>
                 median (observed xs) = (s ! ((length s - 1) div 2) + s ! (length s div 2)) / 2"
    by (intro median_middle) simp
next
  fix n xs assume "(n, Obj xs) \<in> set df \<and> observed xs \<noteq> []"
  then have obs: "observed xs \<noteq> []" by simp
  show "most_frequent (observed xs) \<in> set (observed xs)"
    by (rule most_frequent_props(1) [OF obs])
  show "count_list (observed xs) v \<le> count_list (observed xs) (most_frequent (observed xs))" for v
    by (rule most_frequent_props(2) [OF obs])
  show "\<forall>v\<in>set (observed xs).
                count_list (observed xs) v = count_list (observed xs) (most_frequent (observed xs))
                \<longrightarrow> most_frequent (observed xs) \<le> v"
    using most_frequent_props(3) [OF obs] by blast
qed

text \<open>On \<open>gaps_dated\<close>, where the weather condition and the number of units have missing
  entries, the theorem gives the prepared columns: the missing number of units is filled
  with \<open>5/2\<close>, the median of 1, 2, 3 and 4, and the missing weather condition with
  \<open>RAIN\<close>.\<close>

theorem missing_values_imputed_witness:
  "preprocessing_fit gaps_dated = Inr gaps_fitted \<and>
   preprocessing_transform gaps_fitted gaps_dated = Inr gaps_prepared \<and>
   median (observed [Some 1, None, Some 3, Some 2, Some 4]) = 5 / 2 \<and>
   most_frequent (observed [Some ''RAIN'', Some ''CLEAR'', None, Some ''RAIN'', Some ''SNOW''])
     = ''RAIN'' \<and>
   map_of gaps_prepared ''pipeline-1__num_units'' =
     Some (scaler_transform (scaler_fit [1, 5 / 2, 3, 2, 4]) [1, 5 / 2, 3, 2, 4]) \<and>
   map_of gaps_prepared ''pipeline-2__weather_condition_RAIN'' = Some [1, 0, 1, 1, 0]"
proof -
  let ?out = "concat (map (\<lambda>(n, xs).
                  if observed xs = [] then []
                  else (let fill = median (observed xs);
                            ys = map (\<lambda>x. case x of None \<Rightarrow> fill | Some v \<Rightarrow> v) xs
                        in [(''pipeline-1__'' @ n, scaler_transform (scaler_fit ys) ys)]))
                  (select_number gaps_dated)) @
                concat (map (\<lambda>(n, xs).
                  if observed xs = [] then []
                  else (let fill = most_frequent (observed xs);
                            ys = map (\<lambda>x. case x of None \<Rightarrow> fill | Some v \<Rightarrow> v) xs
                        in map (\<lambda>c. (''pipeline-2__'' @ n @ ''_'' @ c,
                                     map (\<lambda>v. if v = c then 1 else 0) ys))
                             (sort (remdups ys))))
                  (select_object gaps_dated))"
  from missing_values_imputed [OF gaps_fit]
  have "preprocessing_transform gaps_fitted gaps_dated = Inr ?out"
    by (rule conjunct1)
  then have out: "?out = gaps_prepared"
    by (simp only: gaps_transform sum.inject)
  have med: "median (observed [Some 1, None, Some 3, Some 2, Some 4]) = 5 / 2"
    by (simp add: eval_defs)
  have middle: "median [1, 3, 2, 4] = 5 / 2"
    by (simp add: median_def)
  have mode: "most_frequent (observed [Some ''RAIN'', Some ''CLEAR'', None, Some ''RAIN'', Some ''SNOW''])
      = ''RAIN''"
    by (simp add: observed_def List.map_filter_simps most_frequent_def)
  have sel: "select_number gaps_dated =
      [(''num_units'', [Some 1, None, Some 3, Some 2, Some 4]),
       (''injuries_total'', [Some 0, Some 0, Some 1, Some 0, Some 0]),
       (''crash_year'', [Some 2023, None, Some 2023, None, Some 2023]),
       (''crash_month'', [Some 7, None, Some 7, None, Some 7]),
       (''crash_day_of_week'', [Some 5, None, Some 5, None, Some 5])]"
    by (simp add: gaps_dated_def select_number_def List.map_filter_simps)
  have "map_of ?out ''pipeline-1__num_units'' =
     Some (scaler_transform (scaler_fit [1, 5 / 2, 3, 2, 4]) [1, 5 / 2, 3, 2, 4])"
    unfolding sel by (simp add: middle Let_def observed_def List.map_filter_simps)
  then have units: "map_of gaps_prepared ''pipeline-1__num_units'' =
     Some (scaler_transform (scaler_fit [1, 5 / 2, 3, 2, 4]) [1, 5 / 2, 3, 2, 4])"
    unfolding out .
  have rain: "map_of gaps_prepared ''pipeline-2__weather_condition_RAIN'' = Some [1, 0, 1, 1, 0]"
    by (simp add: gaps_prepared_def)
  from gaps_fit gaps_transform med mode units rain show ?thesis by blast
qed

text \<open>
  Claim C4 as stated (in every numeric column every missing entry is replaced by the
  median of the column) fails for a column with no entry present: on \<open>blank_csv\<close> the
  numbers of lanes are all missing, there is no median, and the prepared data has no column
  for them.
\<close>

theorem column_without_values_removed:
  "date_transformation example_library blank_csv = Inr blank_dated \<and>
   map_of blank_dated ''lane_cnt'' = Some (Num [None, None, None, None, None]) \<and>
   preprocessing_fit blank_dated = Inr blank_fitted \<and>
   preprocessing_transform blank_fitted blank_dated = Inr blank_prepared \<and>
   map fst blank_prepared =
     [''pipeline-1__num_units'', ''pipeline-1__injuries_total'', ''pipeline-1__crash_year'',
      ''pipeline-1__crash_month'', ''pipeline-1__crash_day_of_week'',
      ''pipeline-2__weather_condition_CLEAR'', ''pipeline-2__weather_condition_RAIN'',
      ''pipeline-2__weather_condition_SNOW'']"
proof -
  have "map_of blank_dated ''lane_cnt'' = Some (Num [None, None, None, None, None])"
    by (simp add: blank_dated_def)
  moreover have "map fst blank_prepared =
     [''pipeline-1__num_units'', ''pipeline-1__injuries_total'', ''pipeline-1__crash_year'',
      ''pipeline-1__crash_month'', ''pipeline-1__crash_day_of_week'',
      ''pipeline-2__weather_condition_CLEAR'', ''pipeline-2__weather_condition_RAIN'',
      ''pipeline-2__weather_condition_SNOW'']"
    by (simp add: blank_prepared_def)
  ultimately show ?thesis
    using blank_cell3 blank_fit blank_transform by blast
qed

subsection \<open>C6: one-hot encoding\<close>

text \<open>
  Claim C6. Categorical columns are one-hot encoded: the categories of a fitted column are
  the distinct values present in it; a value among them is mapped to the vector that is 1
  at the position of this category and 0 elsewhere, and any other value to the vector of
  zeros. A missing entry counts as the most frequent value of the fitted column. The
  transformation is a total function: it has no error to raise on an unseen value.
\<close>

theorem categorical_values_one_hot_encoded:
  assumes "cat_pipeline_fit xs = Some f" and "i < length ys"
  shows "let cats = onehot_categories f;
             v = (case ys ! i of None \<Rightarrow> cat_statistic f | Some u \<Rightarrow> u);
             row = map (\<lambda>col. col ! i) (cat_pipeline_transform f ys)
         in distinct cats \<and> set cats = set (observed xs) \<and>
            (v \<in> set cats \<longrightarrow>
               (\<exists>j<length cats. cats ! j = v \<and> row = (replicate (length cats) 0)[j := 1])) \<and>
            (v \<notin> set cats \<longrightarrow> row = replicate (length cats) 0)"
proof -
  define cats where "cats = onehot_categories f"
  define v where "v = (case ys ! i of None \<Rightarrow> cat_statistic f | Some u \<Rightarrow> u)"
  define row where "row = map (\<lambda>col. col ! i) (cat_pipeline_transform f ys)"
  have dist: "distinct cats" and cats: "set cats = set (observed xs)"
    using onehot_categories_fitted [OF assms(1)] by (simp_all add: cats_def)
  have vi: "impute (cat_statistic f) ys ! i = v"
    using assms(2) by (simp add: impute_def v_def)
  have row: "row = map (\<lambda>c. if v = c then 1 else 0) cats"
    using assms(2) vi
    by (simp add: row_def cat_pipeline_transform_def onehot_transform_def cats_def comp_def
        impute_def)
  have seen: "\<exists>j<length cats. cats ! j = v \<and> row = (replicate (length cats) 0)[j := 1]"
    if "v \<in> set cats"
  proof -
    from that obtain j where j: "j < length cats" "cats ! j = v"
      by (auto simp: in_set_conv_nth)
    have "row = (replicate (length cats) 0)[j := 1]"
    proof (rule nth_equalityI)
      show "length row = length ((replicate (length cats) (0::real))[j := 1])"
        by (simp add: row)
    next
      fix k assume "k < length row"
      then have k: "k < length cats" by (simp add: row)
      with j dist have "cats ! k = v \<longleftrightarrow> k = j"
        by (auto simp: nth_eq_iff_index_eq)
      with k show "row ! k = (replicate (length cats) 0)[j := 1] ! k"
        by (auto simp: row nth_list_update)
    qed
    with j show ?thesis by blast
  qed
  have unseen: "row = replicate (length cats) 0" if "v \<notin> set cats"
    using that by (auto simp: row intro!: nth_equalityI)
  from dist cats seen unseen show ?thesis
    unfolding Let_def cats_def [symmetric] v_def [symmetric] row_def [symmetric] by blast
qed

text \<open>The encoder fitted on the weather conditions of \<open>gaps_dated\<close> maps \<open>SNOW\<close> to
  its indicator and the unseen \<open>FOG\<close> to zeros: the theorem applies at both rows.\<close>

theorem categorical_values_one_hot_encoded_witness:
  "cat_pipeline_fit [Some ''RAIN'', Some ''CLEAR'', None, Some ''RAIN'', Some ''SNOW''] =
     Some \<lparr>cat_statistic = ''RAIN'', onehot_categories = [''CLEAR'', ''RAIN'', ''SNOW'']\<rparr> \<and>
   map (\<lambda>col. col ! 0)
     (cat_pipeline_transform
        \<lparr>cat_statistic = ''RAIN'', onehot_categories = [''CLEAR'', ''RAIN'', ''SNOW'']\<rparr>
        [Some ''SNOW'', Some ''FOG'', None]) = [0, 0, 1] \<and>
   map (\<lambda>col. col ! 1)
     (cat_pipeline_transform
        \<lparr>cat_statistic = ''RAIN'', onehot_categories = [''CLEAR'', ''RAIN'', ''SNOW'']\<rparr>
        [Some ''SNOW'', Some ''FOG'', None]) = [0, 0, 0]"
proof -
  let ?xs = "[Some ''RAIN'', Some ''CLEAR'', None, Some ''RAIN'', Some ''SNOW'']"
  let ?f = "\<lparr>cat_statistic = ''RAIN'', onehot_categories = [''CLEAR'', ''RAIN'', ''SNOW'']\<rparr>"
  let ?ys = "[Some ''SNOW'', Some ''FOG'', None]"
  let ?cats = "[''CLEAR'', ''RAIN'', ''SNOW'']"
  have fitted: "cat_pipeline_fit ?xs = Some ?f"
    by (simp add: cat_pipeline_fit_def imputer_fit_def observed_def List.map_filter_simps
        most_frequent_def impute_def onehot_fit_def)
  have cats: "onehot_categories ?f = ?cats" by simp
  have v0: "(case ?ys ! 0 of None \<Rightarrow> cat_statistic ?f | Some u \<Rightarrow> u) = ''SNOW''" by simp
  have v1: "(case ?ys ! 1 of None \<Rightarrow> cat_statistic ?f | Some u \<Rightarrow> u) = ''FOG''" by simp
  have l0: "0 < length ?ys" and l1: "1 < length ?ys" by simp_all
  note t0 = categorical_values_one_hot_encoded [OF fitted l0, unfolded Let_def v0 cats]
  note t1 = categorical_values_one_hot_encoded [OF fitted l1, unfolded Let_def v1 cats]
  have "''FOG'' \<notin> set ?cats" by simp
  with t1 have "map (\<lambda>col. col ! 1) (cat_pipeline_transform ?f ?ys) = replicate (length ?cats) 0"
    by blast
  then have r1: "map (\<lambda>col. col ! 1) (cat_pipeline_transform ?f ?ys) = [0, 0, 0]"
    by (simp add: numeral_3_eq_3)
  have "''SNOW'' \<in> set ?cats" by simp
  with t0 obtain j where j: "j < length ?cats" "?cats ! j = ''SNOW''"
    and row: "map (\<lambda>col. col ! 0) (cat_pipeline_transform ?f ?ys) = (replicate (length ?cats) 0)[j := 1]"
    by blast
  from j(1) have "j = 0 \<or> j = 1 \<or> j = 2" by (simp add: less_Suc_eq) arith
  with j(2) have "j = 2" by auto
  with row have r0: "map (\<lambda>col. col ! 0) (cat_pipeline_transform ?f ?ys) = [0, 0, 1]"
    by (simp add: numeral_3_eq_3 numeral_2_eq_2)
  from fitted r0 r1 show ?thesis by blast
qed

subsection \<open>C10: dates that do not parse\<close>

text \<open>
  Claim C10, as amended. When the file has the columns that cell 3 names, cell 3
  completes if pandas converts \<open>crash_date\<close> to a column of dtype \<open>datetime64\<close>,
  and raises \<open>AttributeError\<close> otherwise (strings in which it reads dates with different
  UTC offsets give a column of dtype \<open>object\<close>, which has no \<open>.dt\<close>).
  When it completes: in a row where pandas reads no date, the date is \<open>NaT\<close> and
  \<open>crash_year\<close>, \<open>crash_month\<close> and \<open>crash_day_of_week\<close> are missing; and when
  the preprocessing completes on the result, it fills them with the median of the values
  derived from the dates that were read, provided at least one date was read; if none was,
  the three columns are removed.
\<close>

theorem unparsed_dates_imputed:
  assumes "map_of csv ''crash_date'' = Some c"
    and "{''injuries_fatal'', ''injuries_incapacitating'', ''injuries_non_incapacitating'',
          ''injuries_reported_not_evident''} \<subseteq> fst ` set csv"
  shows "case to_datetime lib c of
           Datetime ts \<Rightarrow>
             (\<exists>df. date_transformation lib csv = Inr df \<and>
                (\<forall>(name, field) \<in> {(''crash_year'', year), (''crash_month'', month),
                                        (''crash_day_of_week'', dayofweek)}.
                   (let ys = map (map_option (\<lambda>t. real_of_int (field t))) ts;
                        zs = map (\<lambda>y. case y of None \<Rightarrow> median (observed ys) | Some v \<Rightarrow> v) ys
                    in map_of df name = Some (Num ys) \<and>
                       (\<forall>i<length ts. ts ! i = None \<longrightarrow> ys ! i = None) \<and>
                       (\<forall>p M. preprocessing_fit df = Inr p \<and> preprocessing_transform p df = Inr M \<longrightarrow>
                          (if observed ts = [] then ''pipeline-1__'' @ name \<notin> fst ` set M
                           else (''pipeline-1__'' @ name, scaler_transform (scaler_fit zs) zs)
                                  \<in> set M)))))
         | _ \<Rightarrow> date_transformation lib csv = Inl AttributeError"
proof (cases "\<exists>ts. to_datetime lib c = Datetime ts")
  case False
  then have "dt (to_datetime lib c) = Inl AttributeError"
    by (cases "to_datetime lib c") simp_all
  from date_transformation_object [OF assms(1) this] False show ?thesis
    by (cases "to_datetime lib c") simp_all
next
  case True
  then obtain ts where ts: "to_datetime lib c = Datetime ts" by blast
  from date_transformation_Inr [OF assms(1,2) ts] obtain df where
    run: "date_transformation lib csv = Inr df"
    and cols: "map_of df ''crash_year'' = Some (dt_field year ts)"
      "map_of df ''crash_month'' = Some (dt_field month ts)"
      "map_of df ''crash_day_of_week'' = Some (dt_field dayofweek ts)"
    by blast
  have field: "let ys = map (map_option (\<lambda>t. real_of_int (field t))) ts;
                zs = map (\<lambda>y. case y of None \<Rightarrow> median (observed ys) | Some v \<Rightarrow> v) ys
            in map_of df name = Some (Num ys) \<and>
               (\<forall>i<length ts. ts ! i = None \<longrightarrow> ys ! i = None) \<and>
               (\<forall>p M. preprocessing_fit df = Inr p \<and> preprocessing_transform p df = Inr M \<longrightarrow>
                  (if observed ts = [] then ''pipeline-1__'' @ name \<notin> fst ` set M
                   else (''pipeline-1__'' @ name, scaler_transform (scaler_fit zs) zs) \<in> set M))"
    if col: "map_of df name = Some (dt_field field ts)" for name field
  proof -
    define ys where "ys = map (map_option (\<lambda>t. real_of_int (field t))) ts"
    have col': "map_of df name = Some (Num ys)"
      using col by (simp add: dt_field_def ys_def)
    have obs: "observed ys = [] \<longleftrightarrow> observed ts = []"
      by (simp add: ys_def observed_map_option)
    have "if observed ts = [] then ''pipeline-1__'' @ name \<notin> fst ` set M
          else (''pipeline-1__'' @ name,
                scaler_transform
                  (scaler_fit (map (\<lambda>y. case y of None \<Rightarrow> median (observed ys) | Some v \<Rightarrow> v) ys))
                  (map (\<lambda>y. case y of None \<Rightarrow> median (observed ys) | Some v \<Rightarrow> v) ys)) \<in> set M"
      if "preprocessing_fit df = Inr p" "preprocessing_transform p df = Inr M" for p M
      using derived_field_output [OF col' that, unfolded impute_eq obs] .
    moreover have "\<forall>i<length ts. ts ! i = None \<longrightarrow> ys ! i = None"
      by (simp add: ys_def)
    ultimately show ?thesis
      unfolding ys_def [symmetric] Let_def using col' by blast
  qed
  show ?thesis
    unfolding ts column.case
  proof (intro exI [of _ df] conjI ballI)
    show "date_transformation lib csv = Inr df" by (rule run)
  next
    fix x :: "string \<times> (timestamp \<Rightarrow> int)"
    assume "x \<in> {(''crash_year'', year), (''crash_month'', month),
                  (''crash_day_of_week'', dayofweek)}"
    then consider "x = (''crash_year'', year)" | "x = (''crash_month'', month)"
      | "x = (''crash_day_of_week'', dayofweek)"
      by blast
    then show "case x of (name, field) \<Rightarrow>
        (let ys = map (map_option (\<lambda>t. real_of_int (field t))) ts;
             zs = map (\<lambda>y. case y of None \<Rightarrow> median (observed ys) | Some v \<Rightarrow> v) ys
         in map_of df name = Some (Num ys) \<and>
            (\<forall>i<length ts. ts ! i = None \<longrightarrow> ys ! i = None) \<and>
            (\<forall>p M. preprocessing_fit df = Inr p \<and> preprocessing_transform p df = Inr M \<longrightarrow>
               (if observed ts = [] then ''pipeline-1__'' @ name \<notin> fst ` set M
                else (''pipeline-1__'' @ name, scaler_transform (scaler_fit zs) zs) \<in> set M)))"
    proof cases
      case 1
      show ?thesis unfolding 1 prod.case by (rule field [OF cols(1)])
    next
      case 2
      show ?thesis unfolding 2 prod.case by (rule field [OF cols(2)])
    next
      case 3
      show ?thesis unfolding 3 prod.case by (rule field [OF cols(3)])
    qed
  qed
qed

text \<open>On \<open>gaps_csv\<close>, where two of five dates are not read, the theorem applies: cell 3
  completes, the year of the second and of the fourth accident is missing, and the
  preprocessing fills it with 2023.\<close>

theorem unparsed_dates_imputed_witness:
  "map_of gaps_csv ''crash_date'' =
     Some (Obj [Some ''07/29/2023 01:00:00 PM'', Some ''unknown'', Some ''07/29/2023 01:00:00 PM'',
                None, Some ''07/29/2023 01:00:00 PM'']) \<and>
   {''injuries_fatal'', ''injuries_incapacitating'', ''injuries_non_incapacitating'',
    ''injuries_reported_not_evident''} \<subseteq> fst ` set gaps_csv \<and>
   to_datetime example_library
     (Obj [Some ''07/29/2023 01:00:00 PM'', Some ''unknown'', Some ''07/29/2023 01:00:00 PM'',
           None, Some ''07/29/2023 01:00:00 PM'']) =
     Datetime [Some (Timestamp 2023 7 5), None, Some (Timestamp 2023 7 5), None,
               Some (Timestamp 2023 7 5)] \<and>
   date_transformation example_library gaps_csv = Inr gaps_dated \<and>
   map_of gaps_dated ''crash_year'' = Some (Num [Some 2023, None, Some 2023, None, Some 2023]) \<and>
   preprocessing_fit gaps_dated = Inr gaps_fitted \<and>
   preprocessing_transform gaps_fitted gaps_dated = Inr gaps_prepared \<and>
   (''pipeline-1__crash_year'',
    scaler_transform (scaler_fit [2023, 2023, 2023, 2023, 2023]) [2023, 2023, 2023, 2023, 2023])
     \<in> set gaps_prepared"
proof -
  let ?ds = "[Some ''07/29/2023 01:00:00 PM'', Some ''unknown'', Some ''07/29/2023 01:00:00 PM'',
                None, Some ''07/29/2023 01:00:00 PM'']"
  let ?ts = "[Some (Timestamp 2023 7 5), None, Some (Timestamp 2023 7 5), None,
               Some (Timestamp 2023 7 5)]"
  let ?ys = "[Some 2023, None, Some 2023, None, Some 2023] :: real option list"
  have 1: "map_of gaps_csv ''crash_date'' = Some (Obj ?ds)"
    by (simp add: gaps_csv_def)
  have 2: "{''injuries_fatal'', ''injuries_incapacitating'', ''injuries_non_incapacitating'',
    ''injuries_reported_not_evident''} \<subseteq> fst ` set gaps_csv"
    by (simp add: gaps_csv_def)
  have 3: "to_datetime example_library (Obj ?ds) = Datetime ?ts"
    by (simp add: example_library_def example_to_datetime_def example_date_def observed_def
        List.map_filter_simps Let_def)
  have mem: "(''crash_year'', year) \<in> {(''crash_year'', year), (''crash_month'', month),
      (''crash_day_of_week'', dayofweek)}"
    by (rule insertI1)
  have ys: "map (map_option (\<lambda>t. real_of_int (year t))) ?ts = ?ys" by simp
  have obs: "observed ?ts \<noteq> []" by (simp add: observed_def List.map_filter_simps)
  have zs: "map (\<lambda>y. case y of None \<Rightarrow> median (observed ?ys) | Some v \<Rightarrow> v) ?ys
      = [2023, 2023, 2023, 2023, 2023]"
    by (simp add: observed_def List.map_filter_simps median_def)
  from unparsed_dates_imputed [OF 1 2, of example_library, unfolded 3 column.case Let_def]
  obtain df where run: "date_transformation example_library gaps_csv = Inr df"
    and every: "\<forall>(name, field) \<in> {(''crash_year'', year), (''crash_month'', month),
                               (''crash_day_of_week'', dayofweek)}.
       map_of df name = Some (Num (map (map_option (\<lambda>t. real_of_int (field t))) ?ts)) \<and>
       (\<forall>i<length ?ts. ?ts ! i = None \<longrightarrow>
              map (map_option (\<lambda>t. real_of_int (field t))) ?ts ! i = None) \<and>
       (\<forall>p M. preprocessing_fit df = Inr p \<and> preprocessing_transform p df = Inr M \<longrightarrow>
          (if observed ?ts = [] then ''pipeline-1__'' @ name \<notin> fst ` set M
           else (''pipeline-1__'' @ name,
               scaler_transform
                 (scaler_fit (map (\<lambda>y. case y of None \<Rightarrow>
                     median (observed (map (map_option (\<lambda>t. real_of_int (field t))) ?ts))
                   | Some v \<Rightarrow> v) (map (map_option (\<lambda>t. real_of_int (field t))) ?ts)))
                 (map (\<lambda>y. case y of None \<Rightarrow>
                     median (observed (map (map_option (\<lambda>t. real_of_int (field t))) ?ts))
                   | Some v \<Rightarrow> v) (map (map_option (\<lambda>t. real_of_int (field t))) ?ts))) \<in> set M))"
    by (elim exE conjE)
  from run have df: "df = gaps_dated" by (simp add: gaps_cell3)
  from bspec [OF every mem] have
    col: "map_of df ''crash_year'' = Some (Num ?ys)"
    and fill: "\<forall>p M. preprocessing_fit df = Inr p \<and> preprocessing_transform p df = Inr M \<longrightarrow>
          (if observed ?ts = [] then ''pipeline-1__'' @ ''crash_year'' \<notin> fst ` set M
           else (''pipeline-1__'' @ ''crash_year'',
               scaler_transform
                 (scaler_fit (map (\<lambda>y. case y of None \<Rightarrow> median (observed ?ys) | Some v \<Rightarrow> v) ?ys))
                 (map (\<lambda>y. case y of None \<Rightarrow> median (observed ?ys) | Some v \<Rightarrow> v) ?ys)) \<in> set M)"
    unfolding prod.case ys by blast+
  from fill gaps_fit gaps_transform have
    "if observed ?ts = [] then ''pipeline-1__'' @ ''crash_year'' \<notin> fst ` set gaps_prepared
     else (''pipeline-1__'' @ ''crash_year'',
               scaler_transform
                 (scaler_fit (map (\<lambda>y. case y of None \<Rightarrow> median (observed ?ys) | Some v \<Rightarrow> v) ?ys))
                 (map (\<lambda>y. case y of None \<Rightarrow> median (observed ?ys) | Some v \<Rightarrow> v) ?ys))
          \<in> set gaps_prepared"
    unfolding df by blast
  with obs have "(''pipeline-1__'' @ ''crash_year'',
               scaler_transform
                 (scaler_fit (map (\<lambda>y. case y of None \<Rightarrow> median (observed ?ys) | Some v \<Rightarrow> v) ?ys))
                 (map (\<lambda>y. case y of None \<Rightarrow> median (observed ?ys) | Some v \<Rightarrow> v) ?ys))
          \<in> set gaps_prepared"
    by (simp only: if_False)
  then have out: "(''pipeline-1__crash_year'',
      scaler_transform (scaler_fit [2023, 2023, 2023, 2023, 2023]) [2023, 2023, 2023, 2023, 2023])
     \<in> set gaps_prepared"
    unfolding zs by simp
  show ?thesis
    using 1 2 3 run [unfolded df] col [unfolded df] gaps_fit gaps_transform out
    by (intro conjI) assumption+
qed

text \<open>
  Claim C10 as stated fails in two ways. On \<open>offsets_csv\<close> the second date is not a
  date and the other two have different UTC offsets: the run does not go on with a missing
  date, cell 3 raises \<open>AttributeError\<close>. On \<open>unparsed_csv\<close> no date is read: the three
  derived columns have no entry present, the imputer removes them instead of filling them,
  and the prepared data has no column for them.
\<close>

theorem unparsed_dates_not_imputed:
  "map_of offsets_csv ''crash_date'' =
     Some (Obj [Some ''2023-07-29 13:00:00+01:00'', Some ''unknown'',
                Some ''2023-07-29 13:00:00+02:00'']) \<and>
   date_transformation example_library offsets_csv = Inl AttributeError \<and>
   date_transformation example_library unparsed_csv = Inr unparsed_dated \<and>
   map_of unparsed_dated ''crash_year'' = Some (Num [None, None, None, None, None]) \<and>
   map_of unparsed_dated ''crash_month'' = Some (Num [None, None, None, None, None]) \<and>
   map_of unparsed_dated ''crash_day_of_week'' = Some (Num [None, None, None, None, None]) \<and>
   preprocessing_fit unparsed_dated = Inr unparsed_fitted \<and>
   preprocessing_transform unparsed_fitted unparsed_dated = Inr unparsed_prepared \<and>
   map_of unparsed_prepared ''pipeline-1__crash_year'' = None \<and>
   map_of unparsed_prepared ''pipeline-1__crash_month'' = None \<and>
   map_of unparsed_prepared ''pipeline-1__crash_day_of_week'' = None"
proof -
  have "map_of offsets_csv ''crash_date'' =
     Some (Obj [Some ''2023-07-29 13:00:00+01:00'', Some ''unknown'',
                Some ''2023-07-29 13:00:00+02:00''])"
    by (simp add: offsets_csv_def)
  moreover have "map_of unparsed_dated ''crash_year'' = Some (Num [None, None, None, None, None])"
    "map_of unparsed_dated ''crash_month'' = Some (Num [None, None, None, None, None])"
    "map_of unparsed_dated ''crash_day_of_week'' = Some (Num [None, None, None, None, None])"
    by (simp_all add: unparsed_dated_def)
  moreover have "map_of unparsed_prepared ''pipeline-1__crash_year'' = None"
    "map_of unparsed_prepared ''pipeline-1__crash_month'' = None"
    "map_of unparsed_prepared ''pipeline-1__crash_day_of_week'' = None"
    by (simp_all add: unparsed_prepared_def)
  ultimately show ?thesis
    using offsets_cell3 unparsed_cell3 unparsed_fit unparsed_transform by blast
qed

end
